theory Spec2Isabelle
  imports Main "HOL-Library.AList"
begin

section \<open>Python values\<close>

text \<open>
  The template engine is dynamically typed: a lookup walks through whatever values the
  caller put in the context.  A value is modelled by what the engine can observe of it:
  its items (\<open>v[k]\<close>), its attributes (\<open>getattr\<close>, \<open>dir\<close>), and, for a callable,
  what a call without arguments does.  Exceptions are values: a computation returns
  \<open>Inl e\<close> where the Python raises \<open>e\<close>.
\<close>

datatype pykey = KStr string | KInt int

datatype 'v exn =
    TypeError
  | AttributeError
  | KeyError
  | ValueError
  | IndexError
  | ContextPopException
  | TemplateSyntaxError string
  | VariableDoesNotExist string 'v
      \<comment> \<open>\<open>params = (bit, current)\<close> of the message "Failed lookup for key [%s] in %r"\<close>
  | OtherError string bool
      \<comment> \<open>any other exception class, with the truth value of its
          \<open>silent_variable_failure\<close> attribute\<close>

datatype 'v callee = Callee (call0: "'v exn + 'v") (getcallargs: "'v exn option")
  \<comment> \<open>\<open>call0\<close>: what \<open>current()\<close> does; \<open>getcallargs\<close>: the exception that
      \<open>inspect.getcallargs(current)\<close> raises, \<open>None\<close> when it returns\<close>

datatype pyval =
    PNone
  | PBool bool
  | PInt int
  | PFloat string  \<comment> \<open>the \<open>float\<close> that \<open>float(s)\<close> returns, kept as its text\<close>
  | PStr string
  | PSafe string  \<comment> \<open>a \<open>SafeString\<close>: a \<open>str\<close> that is also \<open>SafeData\<close>\<close>
  | PList "pyval list"
  | PDict "(pykey \<times> pyval) list"
  | PObj "(string \<times> (pyval exn + pyval)) list"
         "(pykey \<times> (pyval exn + pyval)) list option"
         "pyval callee option"
      \<comment> \<open>an instance of a class: its attributes (a property may raise), its
          \<open>__getitem__\<close> table when it has one, its call behaviour when it is callable\<close>
  | PContext bool "(pykey \<times> pyval) list list" "(string \<times> pyval) list" "(string \<times> pyval) list"
      \<comment> \<open>a \<open>BaseContext\<close>: whether it is a \<open>RenderContext\<close>, its \<open>dicts\<close>, the
          attributes of its class, the attributes of the instance\<close>

type_synonym frame = "(pykey \<times> pyval) list"
type_synonym 'a result = "pyval exn + 'a"


section \<open>context.py: the stack of frames\<close>

text \<open>
  A \<open>BaseContext\<close> holds the list \<open>dicts\<close>, bottom frame first.  A frame is a Python
  \<open>dict\<close>: an association list in insertion order, read with \<open>map_of\<close>.
\<close>

definition builtins :: frame where
  "builtins = [(KStr ''True'', PBool True), (KStr ''False'', PBool False), (KStr ''None'', PNone)]"

text \<open>\<open>BaseContext._reset_dicts(value)\<close>, which \<open>__init__\<close> calls.\<close>

definition reset_dicts :: "frame option \<Rightarrow> frame list" where
  "reset_dicts v = (case v of None \<Rightarrow> [builtins] | Some d \<Rightarrow> [builtins] @ [d])"

text \<open>
  \<open>d.update(other)\<close> and the constructor \<open>dict(*args, **kwargs)\<close> of the Python runtime:
  at most one positional argument is accepted, the keyword arguments are stored after it.
\<close>

definition dict_update :: "('k \<times> 'v) list \<Rightarrow> ('k \<times> 'v) list \<Rightarrow> ('k \<times> 'v) list" where
  "dict_update d other = fold (\<lambda>(k, v). AList.update k v) other d"

definition kw_frame :: "(string \<times> pyval) list \<Rightarrow> frame" where
  "kw_frame kwargs = map (\<lambda>(k, v). (KStr k, v)) kwargs"

fun dict_init :: "frame list \<Rightarrow> (string \<times> pyval) list \<Rightarrow> frame result" where
  "dict_init [] kwargs = Inr (dict_update [] (kw_frame kwargs))"
| "dict_init [d] kwargs = Inr (dict_update (dict_update [] d) (kw_frame kwargs))"
| "dict_init (d # d' # ds) kwargs = Inl TypeError"

text \<open>
  An argument of \<open>push\<close> is a mapping or a \<open>BaseContext\<close> (given by its \<open>dicts\<close>).
\<close>

datatype push_arg = Mapping frame | Ctx "frame list"

text \<open>The loop of \<open>BaseContext.push\<close> that collects \<open>dicts\<close>.\<close>

fun push_dicts :: "push_arg list \<Rightarrow> frame list" where
  "push_dicts [] = []"
| "push_dicts (Ctx ds # args) = drop 1 ds @ push_dicts args"
| "push_dicts (Mapping d # args) = d # push_dicts args"

text \<open>
  \<open>ContextDict.__init__(self, context, *args, **kwargs)\<close>: the frame is built first, then
  appended to \<open>context.dicts\<close>.  The result is the new \<open>dicts\<close>; the handle returned to the
  caller is that last frame together with the context.  A keyword argument named as a
  parameter of the method (\<open>self\<close>, \<open>context\<close>; \<open>self\<close> for \<open>push\<close>) makes the call raise
  TypeError.
\<close>

definition ContextDict_init :: "frame list \<Rightarrow> frame list \<Rightarrow> (string \<times> pyval) list \<Rightarrow> (frame list) result" where
  "ContextDict_init dicts args kwargs =
     (if ''self'' \<in> set (map fst kwargs) \<or> ''context'' \<in> set (map fst kwargs) then Inl TypeError
      else case dict_init args kwargs of
             Inl e \<Rightarrow> Inl e
           | Inr self \<Rightarrow> Inr (dicts @ [self]))"

definition push :: "frame list \<Rightarrow> push_arg list \<Rightarrow> (string \<times> pyval) list \<Rightarrow> (frame list) result" where
  "push dicts args kwargs =
     (if ''self'' \<in> set (map fst kwargs) then Inl TypeError
      else ContextDict_init dicts (push_dicts args) kwargs)"

text \<open>
  \<open>BaseContext.pop\<close>: the outcome and the \<open>dicts\<close> afterwards.
\<close>

definition pop :: "frame list \<Rightarrow> frame result \<times> frame list" where
  "pop dicts =
     (if length dicts = 1 then (Inl ContextPopException, dicts)
      else case rev dicts of
             [] \<Rightarrow> (Inl IndexError, dicts)
           | f # below \<Rightarrow> (Inr f, rev below))"

text \<open>\<open>ContextDict.__exit__\<close> calls \<open>self.context.pop()\<close> and drops what it returns.\<close>

definition ContextDict_exit :: "frame list \<Rightarrow> unit result \<times> frame list" where
  "ContextDict_exit dicts =
     (case pop dicts of
        (Inl e, dicts') \<Rightarrow> (Inl e, dicts')
      | (Inr _, dicts') \<Rightarrow> (Inr (), dicts'))"

text \<open>
  A sequence of \<open>push\<close> and \<open>pop\<close> calls on one context.  A call that raises leaves
  \<open>dicts\<close> as the definitions above say, and the caller goes on.
\<close>

datatype ctx_op = Push "push_arg list" "(string \<times> pyval) list" | Pop

fun apply_ctx_op :: "ctx_op \<Rightarrow> frame list \<Rightarrow> frame list" where
  "apply_ctx_op (Push args kwargs) dicts =
     (case push dicts args kwargs of Inl e \<Rightarrow> dicts | Inr dicts' \<Rightarrow> dicts')"
| "apply_ctx_op Pop dicts = snd (pop dicts)"

definition run_ctx_ops :: "ctx_op list \<Rightarrow> frame list \<Rightarrow> frame list" where
  "run_ctx_ops ops dicts = fold apply_ctx_op ops dicts"

section \<open>The Python runtime and the helpers outside these sources\<close>

text \<open>
  What the code asks of the Python runtime and of \<open>django.utils\<close> with no fixed answer
  in these sources is a parameter of the model: the attributes the built-in types give
  their values (\<open>d.items\<close>, \<open>s.upper\<close>), the operator \<open>%\<close> on strings, \<open>str()\<close>, the
  truth value of a float, lazy translation, the conversion of datetimes and numbers, and
  the matches of the compiled regular expression \<open>filter_re\<close>.
\<close>

record re_match =
  m_start :: nat
  m_end :: nat
  g_constant :: "string option"
  g_var :: "string option"
  g_filter_name :: "string option"
  g_constant_arg :: "string option"
  g_var_arg :: "string option"

record runtime =
  builtin_attrs :: "pyval \<Rightarrow> (string \<times> (pyval exn + pyval)) list"
  percent_format :: "string \<Rightarrow> string \<Rightarrow> pyval exn + string"
    \<comment> \<open>\<open>fmt % obj\<close>, given \<open>fmt\<close> and \<open>str(obj)\<close>\<close>
  to_str :: "pyval \<Rightarrow> pyval exn + pyval"
    \<comment> \<open>what \<open>type(v).__str__(v)\<close> returns or raises, for a value that is not a string\<close>
  float_nonzero :: "string \<Rightarrow> bool"
  gettext_lazy :: "string option \<Rightarrow> pyval \<Rightarrow> pyval"
    \<comment> \<open>\<open>pgettext_lazy(message_context, msgid)\<close>, \<open>gettext_lazy(msgid)\<close> without context\<close>
  localtime_of :: "pyval \<Rightarrow> pyval \<Rightarrow> pyval"
  localize_of :: "pyval \<Rightarrow> pyval \<Rightarrow> pyval"
  filter_re_finditer :: "string \<Rightarrow> re_match list"

subsection \<open>Strings\<close>

definition is_space :: "char \<Rightarrow> bool" where
  \<comment> \<open>\<open>str.isspace\<close> on the characters below 256\<close>
  "is_space c = (of_char c \<in> set [9, 10, 11, 12, 13, 28, 29, 30, 31, 32, 133, 160 :: nat])"

definition strip :: "string \<Rightarrow> string" where
  "strip s = rev (dropWhile is_space (rev (dropWhile is_space s)))"

text \<open>
  \<open>int(s)\<close> and \<open>float(s)\<close> skip less than \<open>strip\<close> does: the separators U+001C to
  U+001F around a number make them raise ValueError.
\<close>

definition is_number_space :: "char \<Rightarrow> bool" where
  "is_number_space c = (of_char c \<in> set [9, 10, 11, 12, 13, 32, 133, 160 :: nat])"

definition number_strip :: "string \<Rightarrow> string" where
  "number_strip s = rev (dropWhile is_number_space (rev (dropWhile is_number_space s)))"

definition is_digit :: "char \<Rightarrow> bool" where
  "is_digit c = (48 \<le> (of_char c :: nat) \<and> (of_char c :: nat) \<le> 57)"

definition digit_val :: "char \<Rightarrow> int" where
  "digit_val c = int (of_char c) - 48"

text \<open>\<open>digitpart ::= digit (["_"] digit)*\<close>: the digits, or \<open>None\<close>.\<close>

fun digitpart :: "string \<Rightarrow> string option" where
  "digitpart [] = None"
| "digitpart [c] = (if is_digit c then Some [c] else None)"
| "digitpart (c # d # s) =
     (if \<not> is_digit c then None
      else if d = CHR ''_'' then map_option ((#) c) (digitpart s)
      else map_option ((#) c) (digitpart (d # s)))"

definition unsigned :: "string \<Rightarrow> string" where
  "unsigned s = (case s of [] \<Rightarrow> [] | c # r \<Rightarrow> if c = CHR ''+'' \<or> c = CHR ''-'' then r else s)"

definition negative :: "string \<Rightarrow> bool" where
  "negative s = (case s of [] \<Rightarrow> False | c # r \<Rightarrow> c = CHR ''-'')"

text \<open>\<open>int(s)\<close>: \<open>None\<close> where Python raises ValueError.\<close>

definition py_int :: "string \<Rightarrow> int option" where
  "py_int s =
     (case digitpart (unsigned (number_strip s)) of
        None \<Rightarrow> None
      | Some ds \<Rightarrow>
          let n = foldl (\<lambda>a c. 10 * a + digit_val c) 0 ds
          in Some (if negative (number_strip s) then - n else n))"

text \<open>
  \<open>float(s)\<close> succeeds: the grammar \<open>[sign] number [exponent]\<close> of the language reference;
  \<open>inf\<close> and \<open>nan\<close>, which hold neither a dot nor an \<open>e\<close>, never reach \<open>float\<close> from
  \<open>Variable.__init__\<close>.
\<close>

definition is_digitpart :: "string \<Rightarrow> bool" where
  "is_digitpart s = (digitpart s \<noteq> None)"

definition is_number :: "string \<Rightarrow> bool" where
  \<comment> \<open>\<open>number ::= [digitpart] "." digitpart | digitpart ["."]\<close>\<close>
  "is_number s =
     (let a = takeWhile (\<lambda>c. c \<noteq> CHR ''.'') s; b = dropWhile (\<lambda>c. c \<noteq> CHR ''.'') s
      in case b of
           [] \<Rightarrow> is_digitpart a
         | dot # frac \<Rightarrow>
             (is_digitpart a \<and> frac = []) \<or> ((a = [] \<or> is_digitpart a) \<and> is_digitpart frac))"

definition is_e :: "char \<Rightarrow> bool" where
  "is_e c = (c = CHR ''e'' \<or> c = CHR ''E'')"

definition py_float_ok :: "string \<Rightarrow> bool" where
  "py_float_ok s =
     (let t = unsigned (number_strip s);
          mant = takeWhile (\<lambda>c. \<not> is_e c) t; ex = dropWhile (\<lambda>c. \<not> is_e c) t
      in is_number mant \<and> (case ex of [] \<Rightarrow> True | e # r \<Rightarrow> is_digitpart (unsigned r)))"

text \<open>\<open>s.split(sep)\<close> for a separator of one character, and \<open>sep.join(xs)\<close>.\<close>

fun split_on :: "char \<Rightarrow> string \<Rightarrow> string list" where
  "split_on sep [] = [[]]"
| "split_on sep (c # s) =
     (if c = sep then [] # split_on sep s
      else case split_on sep s of [] \<Rightarrow> [[c]] | w # ws \<Rightarrow> (c # w) # ws)"

fun join :: "string \<Rightarrow> string list \<Rightarrow> string" where
  "join sep [] = []"
| "join sep [x] = x"
| "join sep (x # y # xs) = x @ sep @ join sep (y # xs)"

text \<open>\<open>sub in s\<close> and \<open>s.find(sub) > -1\<close>.\<close>

fun contains :: "string \<Rightarrow> string \<Rightarrow> bool" where
  "contains sub [] = (sub = [])"
| "contains sub (c # s) = (take (length sub) (c # s) = sub \<or> contains sub s)"

text \<open>\<open>s.replace(old, new)\<close> for a non-empty \<open>old\<close>.\<close>

fun replace :: "string \<Rightarrow> string \<Rightarrow> string \<Rightarrow> string" where
  "replace old new [] = []"
| "replace old new (c # s) =
     (if old \<noteq> [] \<and> take (length old) (c # s) = old
      then new @ replace old new (drop (length old) (c # s))
      else c # replace old new s)"

text \<open>\<open>'%d' % n\<close>.\<close>

definition digit_char :: "nat \<Rightarrow> char" where
  "digit_char n = ''0123456789'' ! (n mod 10)"

fun show_nat :: "nat \<Rightarrow> string" where
  "show_nat n = (if n < 10 then [digit_char n] else show_nat (n div 10) @ [digit_char n])"

declare show_nat.simps [simp del]

definition show_int :: "int \<Rightarrow> string" where
  "show_int i = (if i < 0 then CHR ''-'' # show_nat (nat (- i)) else show_nat (nat i))"

subsection \<open>Items, attributes, truth values\<close>

text \<open>Indexing a sequence: a negative index counts from the end.\<close>

definition seq_getitem :: "'a list \<Rightarrow> int \<Rightarrow> 'a result" where
  "seq_getitem xs i =
     (let n = int (length xs); j = (if i < 0 then n + i else i)
      in if 0 \<le> j \<and> j < n then Inr (xs ! nat j) else Inl IndexError)"

text \<open>
  \<open>BaseContext.__getitem__\<close> scans \<open>reversed(self.dicts)\<close>; \<open>RenderContext.__getitem__\<close>
  reads \<open>self.dicts[-1]\<close> only.
\<close>

fun scan_dicts :: "frame list \<Rightarrow> pykey \<Rightarrow> pyval result" where
  "scan_dicts [] key = Inl KeyError"
| "scan_dicts (d # ds) key = (case map_of d key of Some v \<Rightarrow> Inr v | None \<Rightarrow> scan_dicts ds key)"

definition context_getitem :: "bool \<Rightarrow> frame list \<Rightarrow> pykey \<Rightarrow> pyval result" where
  "context_getitem render_context dicts key =
     (if render_context
      then (case rev dicts of
              [] \<Rightarrow> Inl IndexError
            | d # _ \<Rightarrow> (case map_of d key of Some v \<Rightarrow> Inr v | None \<Rightarrow> Inl KeyError))
      else scan_dicts (rev dicts) key)"

text \<open>\<open>current[key]\<close>.\<close>

fun py_getitem :: "pyval \<Rightarrow> pykey \<Rightarrow> pyval result" where
  "py_getitem (PDict d) key = (case map_of d key of Some v \<Rightarrow> Inr v | None \<Rightarrow> Inl KeyError)"
| "py_getitem (PList xs) (KInt i) = seq_getitem xs i"
| "py_getitem (PStr s) (KInt i) = map_sum id (\<lambda>c. PStr [c]) (seq_getitem s i)"
| "py_getitem (PSafe s) (KInt i) = map_sum id (\<lambda>c. PStr [c]) (seq_getitem s i)"
| "py_getitem (PObj attrs items callee) key =
     (case items of
        None \<Rightarrow> Inl TypeError
      | Some tbl \<Rightarrow> (case map_of tbl key of Some r \<Rightarrow> r | None \<Rightarrow> Inl KeyError))"
| "py_getitem (PContext rc dicts cattrs iattrs) key = context_getitem rc dicts key"
| "py_getitem v key = Inl TypeError"

text \<open>\<open>getattr(current, name)\<close> and \<open>dir(current)\<close>.\<close>

definition attr_of :: "(string \<times> pyval result) list \<Rightarrow> string \<Rightarrow> pyval result" where
  "attr_of tbl name = (case map_of tbl name of Some r \<Rightarrow> r | None \<Rightarrow> Inl AttributeError)"

fun py_getattr :: "runtime \<Rightarrow> pyval \<Rightarrow> string \<Rightarrow> pyval result" where
  "py_getattr rt (PObj attrs items callee) name = attr_of attrs name"
| "py_getattr rt (PContext rc dicts cattrs iattrs) name =
     (case map_of iattrs name of
        Some v \<Rightarrow> Inr v
      | None \<Rightarrow> (case map_of cattrs name of Some v \<Rightarrow> Inr v | None \<Rightarrow> Inl AttributeError))"
| "py_getattr rt v name = attr_of (builtin_attrs rt v) name"

fun py_dir :: "runtime \<Rightarrow> pyval \<Rightarrow> string list" where
  "py_dir rt (PObj attrs items callee) = map fst attrs"
| "py_dir rt (PContext rc dicts cattrs iattrs) = map fst iattrs @ map fst cattrs"
| "py_dir rt v = map fst (builtin_attrs rt v)"

text \<open>\<open>getattr(type(current), name)\<close> for a context: the attribute of the class.\<close>

definition class_attr :: "(string \<times> pyval) list \<Rightarrow> string \<Rightarrow> pyval result" where
  "class_attr cattrs name = (case map_of cattrs name of Some v \<Rightarrow> Inr v | None \<Rightarrow> Inl AttributeError)"

fun truthy :: "runtime \<Rightarrow> pyval \<Rightarrow> bool" where
  "truthy rt PNone = False"
| "truthy rt (PBool b) = b"
| "truthy rt (PInt i) = (i \<noteq> 0)"
| "truthy rt (PFloat s) = float_nonzero rt s"
| "truthy rt (PStr s) = (s \<noteq> [])"
| "truthy rt (PSafe s) = (s \<noteq> [])"
| "truthy rt (PList xs) = (xs \<noteq> [])"
| "truthy rt (PDict d) = (d \<noteq> [])"
| "truthy rt v = True"

text \<open>\<open>getattr(current, name, False)\<close> read as a condition.\<close>

definition flag :: "runtime \<Rightarrow> pyval \<Rightarrow> string \<Rightarrow> bool result" where
  "flag rt v name =
     (case py_getattr rt v name of
        Inr x \<Rightarrow> Inr (truthy rt x)
      | Inl e \<Rightarrow> if e = AttributeError then Inr False else Inl e)"

fun is_context :: "pyval \<Rightarrow> bool" where
  "is_context (PContext rc dicts cattrs iattrs) = True"
| "is_context v = False"

fun callable :: "pyval \<Rightarrow> pyval callee option" where
  "callable (PObj attrs items callee) = callee"
| "callable v = None"

fun is_SafeData :: "pyval \<Rightarrow> bool" where
  "is_SafeData (PSafe s) = True"
| "is_SafeData v = False"

text \<open>
  \<open>str(v)\<close>: a string is returned as it is (the \<open>__str__\<close> of a \<open>SafeString\<close> returns the
  string itself); for another value, what its \<open>__str__\<close> returns, which must be a string
  and may be a safe one.  \<open>str_text\<close> is the text of that string.
\<close>

fun is_str :: "pyval \<Rightarrow> bool" where
  "is_str (PStr s) = True"
| "is_str (PSafe s) = True"
| "is_str v = False"

fun text_of :: "pyval \<Rightarrow> string" where
  "text_of (PStr s) = s"
| "text_of (PSafe s) = s"
| "text_of v = []"

definition str_value :: "runtime \<Rightarrow> pyval \<Rightarrow> pyval result" where
  "str_value rt v =
     (if is_str v then Inr v
      else case to_str rt v of
             Inl e \<Rightarrow> Inl e
           | Inr r \<Rightarrow> if is_str r then Inr r else Inl TypeError)"

definition str_text :: "runtime \<Rightarrow> pyval \<Rightarrow> string result" where
  "str_text rt v = map_sum id text_of (str_value rt v)"


section \<open>base.py: Variable\<close>

record variable =
  var :: string
  literal :: pyval
  lookups :: "string list option"
  translate :: bool
  message_context :: "string option"

text \<open>\<open>context.template.engine.string_if_invalid\<close>.\<close>

definition string_if_invalid :: "runtime \<Rightarrow> pyval \<Rightarrow> pyval result" where
  "string_if_invalid rt context =
     (case py_getattr rt context ''template'' of
        Inl e \<Rightarrow> Inl e
      | Inr template \<Rightarrow>
          (case py_getattr rt template ''engine'' of
             Inl e \<Rightarrow> Inl e
           | Inr engine \<Rightarrow> py_getattr rt engine ''string_if_invalid''))"

text \<open>
  The three lookups of \<open>Variable._resolve_lookup\<close> for one \<open>bit\<close>, each with the
  exceptions its \<open>except\<close> clause catches.
\<close>

definition dictionary_lookup :: "pyval \<Rightarrow> string \<Rightarrow> pyval result" where
  "dictionary_lookup current bit' = py_getitem current (KStr bit')"

definition attribute_lookup :: "runtime \<Rightarrow> pyval \<Rightarrow> string \<Rightarrow> pyval result" where
  "attribute_lookup rt current bit' =
     (case current of
        PContext rc dicts cattrs iattrs \<Rightarrow>
          (case class_attr cattrs bit' of
             Inl e \<Rightarrow> Inl e
           | Inr a \<Rightarrow> if truthy rt a then Inl AttributeError else py_getattr rt current bit')
      | _ \<Rightarrow> py_getattr rt current bit')"

definition list_index_lookup :: "pyval \<Rightarrow> string \<Rightarrow> pyval result" where
  "list_index_lookup current bit' =
     (case py_int bit' of
        None \<Rightarrow> Inl ValueError
      | Some i \<Rightarrow> py_getitem current (KInt i))"

definition lookup_bit :: "runtime \<Rightarrow> pyval \<Rightarrow> string \<Rightarrow> pyval result" where
  "lookup_bit rt current bit' =
     (case dictionary_lookup current bit' of
        Inr v \<Rightarrow> Inr v
      | Inl e \<Rightarrow>
          if e \<in> set [TypeError, AttributeError, KeyError, ValueError, IndexError] then
            (case attribute_lookup rt current bit' of
               Inr v \<Rightarrow> Inr v
             | Inl e' \<Rightarrow>
                 if e' \<in> set [TypeError, AttributeError] then
                   if \<not> is_context current \<and> bit' \<in> set (py_dir rt current) then Inl e'
                   else
                     (case list_index_lookup current bit' of
                        Inr v \<Rightarrow> Inr v
                      | Inl e'' \<Rightarrow>
                          if e'' \<in> set [IndexError, ValueError, KeyError, TypeError]
                          then Inl (VariableDoesNotExist bit' current)
                          else Inl e'')
                 else Inl e')
          else Inl e)"

text \<open>The branch \<open>if callable(current)\<close> of the loop body.\<close>

definition call_if_callable :: "runtime \<Rightarrow> pyval \<Rightarrow> pyval \<Rightarrow> pyval result" where
  "call_if_callable rt context current =
     (case callable current of
        None \<Rightarrow> Inr current
      | Some c \<Rightarrow>
          (case flag rt current ''do_not_call_in_templates'' of
             Inl e \<Rightarrow> Inl e
           | Inr True \<Rightarrow> Inr current
           | Inr False \<Rightarrow>
               (case flag rt current ''alters_data'' of
                  Inl e \<Rightarrow> Inl e
                | Inr True \<Rightarrow> string_if_invalid rt context
                | Inr False \<Rightarrow>
                    (case call0 c of
                       Inr v \<Rightarrow> Inr v
                     | Inl e \<Rightarrow>
                         if e = TypeError then
                           (case getcallargs c of
                              Some e' \<Rightarrow>
                                if e' = TypeError then string_if_invalid rt context else Inl e'
                            | None \<Rightarrow> Inl e)
                         else Inl e))))"

text \<open>The \<open>for bit in self.lookups\<close> loop: it stops at the first exception.\<close>

fun walk_lookups :: "runtime \<Rightarrow> pyval \<Rightarrow> pyval \<Rightarrow> string list \<Rightarrow> pyval result" where
  "walk_lookups rt context current [] = Inr current"
| "walk_lookups rt context current (bit' # bits) =
     (case lookup_bit rt current bit' of
        Inl e \<Rightarrow> Inl e
      | Inr v \<Rightarrow>
          (case call_if_callable rt context v of
             Inl e \<Rightarrow> Inl e
           | Inr v' \<Rightarrow> walk_lookups rt context v' bits))"

fun silent_variable_failure :: "pyval exn \<Rightarrow> bool" where
  "silent_variable_failure (OtherError name silent) = silent"
| "silent_variable_failure e = False"

text \<open>
  \<open>Variable._resolve_lookup\<close>: the loop inside the catch-all \<open>try\<close>.  The handler logs
  (not modelled) and replaces a silent failure by \<open>string_if_invalid\<close>.
\<close>

definition resolve_lookup :: "runtime \<Rightarrow> string list \<Rightarrow> pyval \<Rightarrow> pyval result" where
  "resolve_lookup rt bits context =
     (case walk_lookups rt context context bits of
        Inr current \<Rightarrow> Inr current
      | Inl e \<Rightarrow> if silent_variable_failure e then string_if_invalid rt context else Inl e)"

text \<open>
  \<open>Variable.resolve\<close>.  For a translated variable, \<open>value.replace\<close> is the method of
  \<open>str\<close>; a value of another type has no such method here.
\<close>

definition translated :: "runtime \<Rightarrow> string option \<Rightarrow> pyval \<Rightarrow> pyval result" where
  "translated rt mc v =
     (case v of
        PStr s \<Rightarrow> Inr (gettext_lazy rt mc (PStr (replace ''%'' ''%%'' s)))
      | PSafe s \<Rightarrow> Inr (gettext_lazy rt mc (PSafe (replace ''%'' ''%%'' s)))
      | _ \<Rightarrow> Inl AttributeError)"

definition Variable_resolve :: "runtime \<Rightarrow> variable \<Rightarrow> pyval \<Rightarrow> pyval result" where
  "Variable_resolve rt self context =
     (case (case lookups self of
              Some bits \<Rightarrow> resolve_lookup rt bits context
            | None \<Rightarrow> Inr (literal self)) of
        Inl e \<Rightarrow> Inl e
      | Inr v \<Rightarrow> if translate self then translated rt (message_context self) v else Inr v)"

text \<open>
  Modelled from the spec: \<open>django.utils.text.unescape_string_literal\<close> and
  \<open>django.utils.safestring.mark_safe\<close> are not in these sources.  A text wrapped in one
  kind of quote is a string literal; its value is the content, with the escaped quote
  and the escaped backslash replaced.  \<open>mark_safe\<close> gives a string the safe marking and
  leaves a value that renders itself (\<open>__html__\<close>) as it is.
\<close>

definition unescape_string_literal :: "string \<Rightarrow> string result" where
  "unescape_string_literal s =
     (case s of
        [] \<Rightarrow> Inl IndexError
      | q # _ \<Rightarrow>
          if (q \<noteq> CHR 0x22 \<and> q \<noteq> CHR 0x27) \<or> last s \<noteq> q then Inl ValueError
          else Inr (replace [CHR 0x5C, CHR 0x5C] [CHR 0x5C]
                      (replace [CHR 0x5C, q] [q] (butlast (tl s)))))"

definition mark_safe :: "runtime \<Rightarrow> pyval \<Rightarrow> pyval result" where
  "mark_safe rt v =
     (case v of
        PStr s \<Rightarrow> Inr (PSafe s)
      | PSafe s \<Rightarrow> Inr v
      | _ \<Rightarrow>
          (case py_getattr rt v ''__html__'' of
             Inr h \<Rightarrow> Inr v
           | Inl e \<Rightarrow> if e = AttributeError then map_sum id PSafe (str_text rt v) else Inl e))"

text \<open>\<open>Variable.__init__\<close>.\<close>

definition float_syntax :: "string \<Rightarrow> bool" where
  \<comment> \<open>\<open>'.' in var or 'e' in var.lower()\<close>\<close>
  "float_syntax v = (CHR ''.'' \<in> set v \<or> CHR ''e'' \<in> set v \<or> CHR ''E'' \<in> set v)"

definition endswith :: "string \<Rightarrow> string \<Rightarrow> bool" where
  "endswith s suffix = (length suffix \<le> length s \<and> drop (length s - length suffix) s = suffix)"

definition startswith :: "string \<Rightarrow> string \<Rightarrow> bool" where
  "startswith s prefix = (take (length prefix) s = prefix)"

definition Variable_init :: "string \<Rightarrow> variable result" where
  "Variable_init v =
     (if float_syntax v \<and> py_float_ok v \<and> \<not> endswith v ''.'' then
        Inr \<lparr>var = v, literal = PFloat v, lookups = None, translate = False, message_context = None\<rparr>
      else if \<not> float_syntax v \<and> py_int v \<noteq> None then
        Inr \<lparr>var = v, literal = PInt (the (py_int v)), lookups = None, translate = False,
             message_context = None\<rparr>
      else
        let lit = (if float_syntax v \<and> py_float_ok v then PFloat v else PNone);
            tr = (startswith v ''_('' \<and> endswith v '')'');
            v' = (if tr then butlast (drop 2 v) else v)
        in case unescape_string_literal v' of
             Inr s \<Rightarrow>
               Inr \<lparr>var = v, literal = PSafe s, lookups = None, translate = tr,
                    message_context = None\<rparr>
           | Inl e \<Rightarrow>
               if e = ValueError then
                 if contains ''._'' v' \<or> startswith v' ''_'' then
                   Inl (TemplateSyntaxError
                          (''Variables and attributes may not begin with underscores: '' @
                           [CHR 0x27] @ v' @ [CHR 0x27]))
                 else
                   Inr \<lparr>var = v, literal = lit, lookups = Some (split_on CHR ''.'' v'),
                        translate = tr, message_context = None\<rparr>
               else Inl e)"


section \<open>base.py: FilterExpression\<close>

text \<open>
  A filter is a Python function with the attributes the engine reads from it and the
  argument counts \<open>getfullargspec\<close> reports.  \<open>fn f obj arg_vals autoescape\<close> is the call
  \<open>func(obj, *arg_vals)\<close>, or \<open>func(obj, autoescape=..., *arg_vals)\<close> when the third
  argument is given.
\<close>

record filter_fn =
  fn :: "pyval \<Rightarrow> pyval list \<Rightarrow> pyval option \<Rightarrow> pyval result"
  expects_localtime :: bool
  needs_autoescape :: bool
  is_safe :: bool
  n_args :: nat
  n_defaults :: nat

datatype filter_arg = Literal pyval | Lookup variable
  \<comment> \<open>the pairs \<open>(False, value)\<close> and \<open>(True, Variable(var_arg))\<close>\<close>

datatype fe_var = IsVariable variable | NotVariable pyval
  \<comment> \<open>\<open>self.var\<close>: a \<open>Variable\<close>, or the value of a constant (\<open>None\<close> is \<open>NotVariable PNone\<close>)\<close>

record filter_expression =
  token :: string
  filters :: "(filter_fn \<times> filter_arg list) list"
  fvar :: fe_var

text \<open>\<open>Parser.find_filter\<close> and \<open>FilterExpression.args_check\<close>.\<close>

definition name_text :: "string option \<Rightarrow> string" where
  "name_text n = (case n of None \<Rightarrow> ''None'' | Some s \<Rightarrow> s)"

definition find_filter :: "(string \<times> filter_fn) list \<Rightarrow> string option \<Rightarrow> filter_fn result" where
  "find_filter registered filter_name =
     (case (case filter_name of None \<Rightarrow> None | Some n \<Rightarrow> map_of registered n) of
        Some f \<Rightarrow> Inr f
      | None \<Rightarrow>
          Inl (TemplateSyntaxError (''Invalid filter: '' @ [CHR 0x27] @ name_text filter_name @ [CHR 0x27])))"

definition args_check :: "string option \<Rightarrow> filter_fn \<Rightarrow> filter_arg list \<Rightarrow> bool result" where
  "args_check name func provided =
     (let plen = int (length provided) + 1;
          alen = int (n_args func);
          dlen = int (n_defaults func)
      in if plen < alen - dlen \<or> plen > alen then
           Inl (TemplateSyntaxError
                  (name_text name @ '' requires '' @ show_int (alen - dlen) @ '' arguments, '' @
                   show_int plen @ '' provided''))
         else Inr True)"

text \<open>\<open>Variable(text).resolve({})\<close>, which \<open>__init__\<close> uses for constants.\<close>

definition constant_value :: "runtime \<Rightarrow> string \<Rightarrow> pyval result" where
  "constant_value rt text =
     (case Variable_init text of
        Inl e \<Rightarrow> Inl e
      | Inr v \<Rightarrow> Variable_resolve rt v (PDict []))"

definition truthy_text :: "string option \<Rightarrow> bool" where
  "truthy_text g = (case g of None \<Rightarrow> False | Some s \<Rightarrow> s \<noteq> [])"

text \<open>The body of the loop over the matches, for the first match and for the later ones.\<close>

definition first_match :: "runtime \<Rightarrow> string \<Rightarrow> re_match \<Rightarrow> fe_var result" where
  "first_match rt tok m =
     (if truthy_text (g_constant m) then
        (case constant_value rt (the (g_constant m)) of
           Inr v \<Rightarrow> Inr (NotVariable v)
         | Inl e \<Rightarrow>
             (case e of VariableDoesNotExist b c \<Rightarrow> Inr (NotVariable PNone) | _ \<Rightarrow> Inl e))
      else case g_var m of
             None \<Rightarrow>
               Inl (TemplateSyntaxError (''Could not find variable at start of '' @ tok @ ''.''))
           | Some v \<Rightarrow> map_sum id IsVariable (Variable_init v))"

definition filter_match ::
  "runtime \<Rightarrow> (string \<times> filter_fn) list \<Rightarrow> re_match \<Rightarrow> (filter_fn \<times> filter_arg list) result" where
  "filter_match rt registered m =
     (case (if truthy_text (g_constant_arg m) then
              map_sum id (\<lambda>v. [Literal v]) (constant_value rt (the (g_constant_arg m)))
            else if truthy_text (g_var_arg m) then
              map_sum id (\<lambda>v. [Lookup v]) (Variable_init (the (g_var_arg m)))
            else Inr []) of
        Inl e \<Rightarrow> Inl e
      | Inr args \<Rightarrow>
          (case find_filter registered (g_filter_name m) of
             Inl e \<Rightarrow> Inl e
           | Inr filter_func \<Rightarrow>
               (case args_check (g_filter_name m) filter_func args of
                  Inl e \<Rightarrow> Inl e
                | Inr ok \<Rightarrow> Inr (filter_func, args))))"

fun init_loop ::
  "runtime \<Rightarrow> (string \<times> filter_fn) list \<Rightarrow> string \<Rightarrow> re_match list \<Rightarrow>
   fe_var \<Rightarrow> (filter_fn \<times> filter_arg list) list \<Rightarrow> nat \<Rightarrow>
   (fe_var \<times> (filter_fn \<times> filter_arg list) list \<times> nat) result" where
  "init_loop rt registered tok [] var_obj fs upto' = Inr (var_obj, fs, upto')"
| "init_loop rt registered tok (m # ms) var_obj fs upto' =
     (if upto' \<noteq> m_start m then
        Inl (TemplateSyntaxError
               (''Could not parse some characters: '' @ take upto' tok @ ''|'' @
                take (m_start m - upto') (drop upto' tok) @ ''|'' @ drop (m_start m) tok))
      else if var_obj = NotVariable PNone then
        (case first_match rt tok m of
           Inl e \<Rightarrow> Inl e
         | Inr var_obj' \<Rightarrow> init_loop rt registered tok ms var_obj' fs (m_end m))
      else
        (case filter_match rt registered m of
           Inl e \<Rightarrow> Inl e
         | Inr f \<Rightarrow> init_loop rt registered tok ms var_obj (fs @ [f]) (m_end m)))"

text \<open>\<open>FilterExpression.__init__(token, parser)\<close>, given the filters the parser knows.\<close>

definition FilterExpression_init ::
  "runtime \<Rightarrow> (string \<times> filter_fn) list \<Rightarrow> string \<Rightarrow> filter_expression result" where
  "FilterExpression_init rt registered tok =
     (case init_loop rt registered tok (filter_re_finditer rt tok) (NotVariable PNone) [] 0 of
        Inl e \<Rightarrow> Inl e
      | Inr (var_obj, fs, upto') \<Rightarrow>
          if upto' \<noteq> length tok then
            Inl (TemplateSyntaxError
                   (''Could not parse the remainder: '' @ [CHR 0x27] @ drop upto' tok @ [CHR 0x27] @
                    '' from '' @ [CHR 0x27] @ tok @ [CHR 0x27]))
          else Inr \<lparr>token = tok, filters = fs, fvar = var_obj\<rparr>)"

text \<open>\<open>FilterExpression.__str__\<close>.\<close>

definition FilterExpression_str :: "filter_expression \<Rightarrow> string" where
  "FilterExpression_str self = token self"

text \<open>
  Modelled from the spec: \<open>django.utils.timezone.template_localtime\<close> and
  \<open>django.utils.formats.localize\<close> are not in these sources.  They convert a value to
  its localized representation (datetimes to the current time zone, numbers and dates to
  the locale's format); a string is already text and stays as it is.
\<close>

definition template_localtime :: "runtime \<Rightarrow> pyval \<Rightarrow> pyval \<Rightarrow> pyval" where
  "template_localtime rt v use_tz =
     (case v of PObj attrs items callee \<Rightarrow> localtime_of rt v use_tz | _ \<Rightarrow> v)"

definition localize :: "runtime \<Rightarrow> pyval \<Rightarrow> pyval \<Rightarrow> pyval" where
  "localize rt v use_l10n =
     (case v of PStr s \<Rightarrow> v | PSafe s \<Rightarrow> v | _ \<Rightarrow> localize_of rt v use_l10n)"

text \<open>The loop over \<open>args\<close> that builds \<open>arg_vals\<close>.\<close>

fun arg_values :: "runtime \<Rightarrow> pyval \<Rightarrow> filter_arg list \<Rightarrow> (pyval list) result" where
  "arg_values rt context [] = Inr []"
| "arg_values rt context (a # args) =
     (case (case a of Literal v \<Rightarrow> mark_safe rt v | Lookup v \<Rightarrow> Variable_resolve rt v context) of
        Inl e \<Rightarrow> Inl e
      | Inr x \<Rightarrow> map_sum id ((#) x) (arg_values rt context args))"

text \<open>One round of the loop \<open>for func, args in self.filters\<close>.\<close>

definition apply_filter ::
  "runtime \<Rightarrow> pyval \<Rightarrow> filter_fn \<times> filter_arg list \<Rightarrow> pyval \<Rightarrow> pyval result" where
  "apply_filter rt context fa obj =
     (case arg_values rt context (snd fa) of
        Inl e \<Rightarrow> Inl e
      | Inr arg_vals \<Rightarrow>
          (case (if expects_localtime (fst fa)
                 then map_sum id (template_localtime rt obj) (py_getattr rt context ''use_tz'')
                 else Inr obj) of
             Inl e \<Rightarrow> Inl e
           | Inr obj' \<Rightarrow>
               (case (if needs_autoescape (fst fa)
                      then (case py_getattr rt context ''autoescape'' of
                              Inl e \<Rightarrow> Inl e
                            | Inr a \<Rightarrow> fn (fst fa) obj' arg_vals (Some a))
                      else fn (fst fa) obj' arg_vals None) of
                  Inl e \<Rightarrow> Inl e
                | Inr new_obj \<Rightarrow>
                    if is_safe (fst fa) \<and> is_SafeData obj' then mark_safe rt new_obj
                    else Inr new_obj)))"

fun apply_filters ::
  "runtime \<Rightarrow> pyval \<Rightarrow> (filter_fn \<times> filter_arg list) list \<Rightarrow> pyval \<Rightarrow> pyval result" where
  "apply_filters rt context [] obj = Inr obj"
| "apply_filters rt context (fa # fs) obj =
     (case apply_filter rt context fa obj of
        Inl e \<Rightarrow> Inl e
      | Inr obj' \<Rightarrow> apply_filters rt context fs obj')"

text \<open>
  The fallback of \<open>FilterExpression.resolve\<close> once \<open>string_if_invalid\<close> is read and true.
  The setting is a string (the system check of the engine refuses anything else); on
  another value the operators \<open>in\<close> and \<open>%\<close> are taken to raise TypeError.
\<close>

definition invalid_result :: "runtime \<Rightarrow> pyval \<Rightarrow> string \<Rightarrow> pyval result" where
  "invalid_result rt sii name =
     (case (case sii of PStr s \<Rightarrow> Some s | PSafe s \<Rightarrow> Some s | _ \<Rightarrow> None) of
        None \<Rightarrow> Inl TypeError
      | Some s \<Rightarrow>
          if contains ''%s'' s then map_sum id PStr (percent_format rt s name)
          else Inr sii)"

text \<open>\<open>FilterExpression.resolve(context, ignore_failures)\<close>.\<close>

definition FilterExpression_resolve ::
  "runtime \<Rightarrow> filter_expression \<Rightarrow> pyval \<Rightarrow> bool \<Rightarrow> pyval result" where
  "FilterExpression_resolve rt self context ignore_failures =
     (case fvar self of
        NotVariable obj \<Rightarrow> apply_filters rt context (filters self) obj
      | IsVariable v \<Rightarrow>
          (case Variable_resolve rt v context of
             Inr obj \<Rightarrow> apply_filters rt context (filters self) obj
           | Inl e \<Rightarrow>
               (case e of
                  VariableDoesNotExist b c \<Rightarrow>
                    if ignore_failures then apply_filters rt context (filters self) PNone
                    else
                      (case string_if_invalid rt context of
                         Inl e' \<Rightarrow> Inl e'
                       | Inr sii \<Rightarrow>
                           if truthy rt sii then invalid_result rt sii (var v)
                           else apply_filters rt context (filters self) sii)
                | _ \<Rightarrow> Inl e)))"


section \<open>base.py: render_value_in_context\<close>

text \<open>
  Modelled from the spec: \<open>django.utils.html.escape\<close> and \<open>conditional_escape\<close> are not in
  these sources.  \<open>escape\<close> replaces the HTML-special characters by their entities and
  marks the result safe; \<open>conditional_escape\<close> escapes a string unless it already carries
  the safe marking.
\<close>

definition escape_char :: "char \<Rightarrow> string" where
  "escape_char c =
     (if c = CHR ''&'' then ''&amp;''
      else if c = CHR ''<'' then ''&lt;''
      else if c = CHR ''>'' then ''&gt;''
      else if c = CHR 0x22 then ''&quot;''
      else if c = CHR 0x27 then ''&#39;''
      else [c])"

definition escape :: "string \<Rightarrow> string" where
  "escape s = concat (map escape_char s)"

definition conditional_escape :: "runtime \<Rightarrow> pyval \<Rightarrow> pyval result" where
  "conditional_escape rt v =
     (case v of
        PSafe s \<Rightarrow> Inr v
      | PStr s \<Rightarrow> Inr (PSafe (escape s))
      | _ \<Rightarrow>
          (case py_getattr rt v ''__html__'' of
             Inr h \<Rightarrow> (case callable h of Some c \<Rightarrow> call0 c | None \<Rightarrow> Inl TypeError)
           | Inl e \<Rightarrow>
               if e = AttributeError then map_sum id (\<lambda>s. PSafe (escape s)) (str_text rt v)
               else Inl e))"

definition render_value_in_context :: "runtime \<Rightarrow> pyval \<Rightarrow> pyval \<Rightarrow> pyval result" where
  "render_value_in_context rt val context =
     (case py_getattr rt context ''use_tz'' of
        Inl e \<Rightarrow> Inl e
      | Inr use_tz \<Rightarrow>
          (case py_getattr rt context ''use_l10n'' of
             Inl e \<Rightarrow> Inl e
           | Inr use_l10n \<Rightarrow>
               let v1 = template_localtime rt val use_tz;
                   v2 = localize rt v1 use_l10n
               in (case py_getattr rt context ''autoescape'' of
                     Inl e \<Rightarrow> Inl e
                   | Inr autoescape \<Rightarrow>
                       if truthy rt autoescape then
                         (case (if \<not> is_str v2 then str_value rt v2 else Inr v2) of
                            Inl e \<Rightarrow> Inl e
                          | Inr v3 \<Rightarrow> conditional_escape rt v3)
                       else str_value rt v2)))"

section \<open>base.py: Token, Node, Parser\<close>

datatype TokenType = TEXT | VAR | BLOCK | COMMENT

text \<open>A token as the lexer creates it: \<open>create_token\<close> always passes \<open>lineno\<close>.\<close>

record Token =
  token_type :: TokenType
  contents :: string
  position :: "(nat \<times> nat) option"
  lineno :: int

text \<open>
  \<open>Lexer.create_token\<close>, with \<open>self.verbatim\<close> before and after the call (\<open>None\<close> is
  \<open>False\<close>).  The result is \<open>None\<close> where the method falls off its end.
\<close>

definition inner_text :: "string \<Rightarrow> string" where
  \<comment> \<open>\<open>token_string[2:-2].strip()\<close>\<close>
  "inner_text token_string = strip (take (length token_string - 4) (drop 2 token_string))"

fun find_from :: "nat \<Rightarrow> string \<Rightarrow> string \<Rightarrow> int" where
  "find_from i sub [] = (if sub = [] then int i else - 1)"
| "find_from i sub (c # s) =
     (if take (length sub) (c # s) = sub then int i else find_from (Suc i) sub s)"

definition create_token ::
  "string option \<Rightarrow> string \<Rightarrow> (nat \<times> nat) option \<Rightarrow> int \<Rightarrow> bool \<Rightarrow> Token option \<times> string option" where
  "create_token verbatim token_string pos line in_tag =
     (let block_content = inner_text token_string;
          verbatim' =
            (if in_tag \<and> startswith token_string ''{%'' \<and> verbatim = Some block_content
             then None else verbatim)
      in if in_tag \<and> verbatim' = None then
           if startswith token_string ''{{'' then
             (Some \<lparr>token_type = VAR, contents = inner_text token_string, position = pos,
                    lineno = line\<rparr>, verbatim')
           else if startswith token_string ''{%'' then
             (Some \<lparr>token_type = BLOCK, contents = block_content, position = pos, lineno = line\<rparr>,
              if take 9 block_content \<in> set [''verbatim'', ''verbatim '']
              then Some (''end'' @ block_content) else verbatim')
           else if startswith token_string ''{#'' then
             (Some \<lparr>token_type = COMMENT,
                    contents = (if find_from 0 ''Translators'' token_string \<noteq> 0
                                then inner_text token_string else []),
                    position = pos, lineno = line\<rparr>, verbatim')
           else (None, verbatim')
         else
           (Some \<lparr>token_type = TEXT, contents = token_string, position = pos, lineno = line\<rparr>,
            verbatim'))"

text \<open>
  A node is a \<open>TextNode\<close>, a \<open>VariableNode\<close>, or the node a tag compiler built: of that one
  the parser reads \<open>must_be_first\<close> and, for a message, its \<open>repr\<close>.  An entry of a
  \<open>NodeList\<close> is a node with the \<open>token\<close> that \<open>extend_nodelist\<close> stored in it.
\<close>

datatype node =
    TextNode string
  | VariableNode filter_expression
  | TagNode bool string "(node \<times> Token) list list"

record nodelist =
  nodes :: "(node \<times> Token) list"
  contains_nontext :: bool

type_synonym perror = "pyval exn \<times> Token option"
  \<comment> \<open>an exception and its attribute \<open>token\<close>, when \<open>Parser.error\<close> has set it\<close>

text \<open>
  A tag compiler is a callback \<open>compile_func(parser, token)\<close>.  What it does with the
  parser is a sequence of calls of the parser's methods, each with the continuation that
  receives what the call returned or raised; it ends by returning a node or raising.
\<close>

datatype prog =
    Return node
  | Raise perror
  | Parse "string list" "perror + nodelist \<Rightarrow> prog"
  | NextToken "perror + Token \<Rightarrow> prog"
  | PrependToken Token prog
  | DeleteFirstToken "perror + unit \<Rightarrow> prog"
  | SkipPast string "perror + unit \<Rightarrow> prog"
  | CompileFilter string "perror + filter_expression \<Rightarrow> prog"
  | AddLibrary "(string \<times> (Token \<Rightarrow> prog)) list" "(string \<times> filter_fn) list" prog

record parser =
  tokens :: "Token list"
  tags :: "(string \<times> (Token \<Rightarrow> prog)) list"
  pfilters :: "(string \<times> filter_fn) list"
  command_stack :: "(string \<times> Token) list"

text \<open>\<open>Parser.add_library\<close> and \<open>Parser.__init__\<close>.\<close>

definition add_library ::
  "parser \<Rightarrow> (string \<times> (Token \<Rightarrow> prog)) list \<times> (string \<times> filter_fn) list \<Rightarrow> parser" where
  "add_library p lib =
     p\<lparr>tags := dict_update (tags p) (fst lib), pfilters := dict_update (pfilters p) (snd lib)\<rparr>"

definition Parser_init ::
  "Token list \<Rightarrow> ((string \<times> (Token \<Rightarrow> prog)) list \<times> (string \<times> filter_fn) list) list \<Rightarrow> parser" where
  "Parser_init toks builtin_libs =
     foldl add_library \<lparr>tokens = toks, tags = [], pfilters = [], command_stack = []\<rparr> builtin_libs"

text \<open>\<open>s.split()\<close>: the words between runs of whitespace.\<close>

fun split_acc :: "string \<Rightarrow> string \<Rightarrow> string list" where
  "split_acc w [] = (if w = [] then [] else [w])"
| "split_acc w (c # s) =
     (if is_space c then (if w = [] then split_acc [] s else w # split_acc [] s)
      else split_acc (w @ [c]) s)"

definition py_split :: "string \<Rightarrow> string list" where
  "py_split s = split_acc [] s"

text \<open>\<open>Parser.error(token, e)\<close> for a message and for an exception.\<close>

definition error_msg :: "Token \<Rightarrow> string \<Rightarrow> perror" where
  "error_msg t msg = (TemplateSyntaxError msg, Some t)"

definition error_exc :: "Token \<Rightarrow> perror \<Rightarrow> perror" where
  "error_exc t e = (fst e, (case snd e of None \<Rightarrow> Some t | Some t' \<Rightarrow> Some t'))"

definition quoted :: "string \<Rightarrow> string" where
  "quoted s = [CHR 0x27] @ s @ [CHR 0x27]"

text \<open>
  Modelled from the spec: \<open>django.utils.text.get_text_list\<close> is not in these sources.  It
  lists the expected stop commands: separated by commas, the last one after \<open>or\<close>.
\<close>

definition get_text_list :: "string list \<Rightarrow> string \<Rightarrow> string" where
  "get_text_list xs last_word =
     (if xs = [] then []
      else if length xs = 1 then hd xs
      else join '', '' (butlast xs) @ '' '' @ last_word @ '' '' @ last xs)"

definition invalid_block_tag :: "Token \<Rightarrow> string \<Rightarrow> string list \<Rightarrow> perror" where
  "invalid_block_tag t command parse_until =
     (if parse_until \<noteq> [] then
        error_msg t
          (''Invalid block tag on line '' @ show_int (lineno t) @ '': '' @ quoted command @
           '', expected '' @ get_text_list (map quoted parse_until) ''or'' @
           ''. Did you forget to register or load this tag?'')
      else
        error_msg t
          (''Invalid block tag on line '' @ show_int (lineno t) @ '': '' @ quoted command @
           ''. Did you forget to register or load this tag?''))"

text \<open>
  \<open>Parser.unclosed_block_tag\<close>: \<open>command_stack.pop()\<close> takes the last entry, and raises
  IndexError on an empty stack.
\<close>

definition unclosed_block_tag :: "string list \<Rightarrow> parser \<Rightarrow> perror \<times> parser" where
  "unclosed_block_tag parse_until p =
     (case rev (command_stack p) of
        [] \<Rightarrow> ((IndexError, None), p)
      | (command, t) # below \<Rightarrow>
          (error_msg t
             (''Unclosed tag on line '' @ show_int (lineno t) @ '': '' @ quoted command @
              ''. Looking for one of: '' @ join '', '' parse_until @ ''.''),
           p\<lparr>command_stack := rev below\<rparr>))"

text \<open>\<open>Parser.extend_nodelist\<close>.\<close>

fun must_be_first :: "node \<Rightarrow> bool" where
  "must_be_first (TagNode first r children) = first"
| "must_be_first n = False"

fun node_repr :: "node \<Rightarrow> string" where
  "node_repr (TagNode first r children) = r"
| "node_repr n = []"

fun is_TextNode :: "node \<Rightarrow> bool" where
  "is_TextNode (TextNode s) = True"
| "is_TextNode n = False"

definition extend_nodelist :: "nodelist \<Rightarrow> node \<Rightarrow> Token \<Rightarrow> perror + nodelist" where
  "extend_nodelist nl n t =
     (if must_be_first n \<and> contains_nontext nl then
        Inl (error_msg t (node_repr n @ '' must be the first tag in the template.''))
      else
        Inr \<lparr>nodes = nodes nl @ [(n, t)],
             contains_nontext = (contains_nontext nl \<or> \<not> is_TextNode n)\<rparr>)"

text \<open>\<open>Parser.compile_filter\<close>, and \<open>Parser.skip_past\<close> with its loop over the tokens.\<close>

definition compile_filter :: "runtime \<Rightarrow> parser \<Rightarrow> string \<Rightarrow> perror + filter_expression" where
  "compile_filter rt p text =
     (case FilterExpression_init rt (pfilters p) text of
        Inl e \<Rightarrow> Inl (e, None)
      | Inr fe \<Rightarrow> Inr fe)"

fun skip_tokens :: "string \<Rightarrow> Token list \<Rightarrow> Token list option" where
  "skip_tokens endtag [] = None"
| "skip_tokens endtag (t # ts) =
     (if token_type t = BLOCK \<and> contents t = endtag then Some ts else skip_tokens endtag ts)"

definition skip_past :: "string \<Rightarrow> parser \<Rightarrow> (perror + unit) \<times> parser" where
  "skip_past endtag p =
     (case skip_tokens endtag (tokens p) of
        Some ts \<Rightarrow> (Inr (), p\<lparr>tokens := ts\<rparr>)
      | None \<Rightarrow>
          (case unclosed_block_tag [endtag] (p\<lparr>tokens := []\<rparr>) of (e, p') \<Rightarrow> (Inl e, p')))"

definition is_TemplateSyntaxError :: "pyval exn \<Rightarrow> bool" where
  "is_TemplateSyntaxError e = (case e of TemplateSyntaxError m \<Rightarrow> True | _ \<Rightarrow> False)"

text \<open>
  \<open>Parser.parse(parse_until)\<close> with the node list built so far, the body of its loop for
  the token just taken from the queue, and the run of a tag compiler.  The body either
  goes on to the next round (\<open>Next\<close>) or leaves \<open>parse\<close> by \<open>return\<close> or \<open>raise\<close> (\<open>Done\<close>).
  All three are bounded by a step count, since a compiler may put tokens back for ever;
  \<open>None\<close> is a run that did not finish within the count.
\<close>

datatype step = Next nodelist | Done "perror + nodelist"

fun parse ::
    "nat \<Rightarrow> runtime \<Rightarrow> string list \<Rightarrow> nodelist \<Rightarrow> parser \<Rightarrow> ((perror + nodelist) \<times> parser) option"
  and parse_token ::
    "nat \<Rightarrow> runtime \<Rightarrow> string list \<Rightarrow> nodelist \<Rightarrow> Token \<Rightarrow> parser \<Rightarrow> (step \<times> parser) option"
  and run_tag ::
    "nat \<Rightarrow> runtime \<Rightarrow> prog \<Rightarrow> parser \<Rightarrow> ((perror + node) \<times> parser) option" where
  "parse 0 rt parse_until nl p = None"
| "parse (Suc n) rt parse_until nl p =
     (case tokens p of
        [] \<Rightarrow>
          if parse_until \<noteq> [] then
            (case unclosed_block_tag parse_until p of (e, p') \<Rightarrow> Some (Inl e, p'))
          else Some (Inr nl, p)
      | t # ts \<Rightarrow>
          (case parse_token n rt parse_until nl t (p\<lparr>tokens := ts\<rparr>) of
             None \<Rightarrow> None
           | Some (Done r, p') \<Rightarrow> Some (r, p')
           | Some (Next nl', p') \<Rightarrow> parse n rt parse_until nl' p'))"
| "parse_token n rt parse_until nl t p =
     (case token_type t of
        TEXT \<Rightarrow>
          (case extend_nodelist nl (TextNode (contents t)) t of
             Inl e \<Rightarrow> Some (Done (Inl e), p)
           | Inr nl' \<Rightarrow> Some (Next nl', p))
      | VAR \<Rightarrow>
          if contents t = [] then
            Some (Done (Inl (error_msg t (''Empty variable tag on line '' @ show_int (lineno t)))), p)
          else
            (case compile_filter rt p (contents t) of
               Inl e \<Rightarrow>
                 Some (Done (Inl (if is_TemplateSyntaxError (fst e) then error_exc t e else e)), p)
             | Inr filter_expression \<Rightarrow>
                 (case extend_nodelist nl (VariableNode filter_expression) t of
                    Inl e \<Rightarrow> Some (Done (Inl e), p)
                  | Inr nl' \<Rightarrow> Some (Next nl', p)))
      | BLOCK \<Rightarrow>
          (case py_split (contents t) of
             [] \<Rightarrow>
               Some (Done (Inl (error_msg t (''Empty block tag on line '' @ show_int (lineno t)))), p)
           | command # _ \<Rightarrow>
               if command \<in> set parse_until then
                 Some (Done (Inr nl), p\<lparr>tokens := t # tokens p\<rparr>)
               else
                 let p2 = p\<lparr>command_stack := command_stack p @ [(command, t)]\<rparr> in
                 (case map_of (tags p2) command of
                    None \<Rightarrow> Some (Done (Inl (invalid_block_tag t command parse_until)), p2)
                  | Some compile_func \<Rightarrow>
                      (case run_tag n rt (compile_func t) p2 of
                         None \<Rightarrow> None
                       | Some (Inl e, p3) \<Rightarrow> Some (Done (Inl (error_exc t e)), p3)
                       | Some (Inr compiled_result, p3) \<Rightarrow>
                           (case extend_nodelist nl compiled_result t of
                              Inl e \<Rightarrow> Some (Done (Inl e), p3)
                            | Inr nl' \<Rightarrow>
                                if command_stack p3 = [] then
                                  Some (Done (Inl (IndexError, None)), p3)
                                else
                                  Some (Next nl',
                                        p3\<lparr>command_stack := butlast (command_stack p3)\<rparr>)))))
      | COMMENT \<Rightarrow> Some (Next nl, p))"
| "run_tag 0 rt c p = None"
| "run_tag (Suc n) rt (Return nd) p = Some (Inr nd, p)"
| "run_tag (Suc n) rt (Raise e) p = Some (Inl e, p)"
| "run_tag (Suc n) rt (Parse parse_until k) p =
     (case parse n rt parse_until \<lparr>nodes = [], contains_nontext = False\<rparr> p of
        None \<Rightarrow> None
      | Some (r, p') \<Rightarrow> run_tag n rt (k r) p')"
| "run_tag (Suc n) rt (NextToken k) p =
     (case tokens p of
        [] \<Rightarrow> run_tag n rt (k (Inl (IndexError, None))) p
      | t # ts \<Rightarrow> run_tag n rt (k (Inr t)) (p\<lparr>tokens := ts\<rparr>))"
| "run_tag (Suc n) rt (PrependToken t c) p = run_tag n rt c (p\<lparr>tokens := t # tokens p\<rparr>)"
| "run_tag (Suc n) rt (DeleteFirstToken k) p =
     (case tokens p of
        [] \<Rightarrow> run_tag n rt (k (Inl (IndexError, None))) p
      | t # ts \<Rightarrow> run_tag n rt (k (Inr ())) (p\<lparr>tokens := ts\<rparr>))"
| "run_tag (Suc n) rt (SkipPast endtag k) p =
     (case skip_past endtag p of (r, p') \<Rightarrow> run_tag n rt (k r) p')"
| "run_tag (Suc n) rt (CompileFilter text k) p = run_tag n rt (k (compile_filter rt p text)) p"
| "run_tag (Suc n) rt (AddLibrary lib_tags lib_filters c) p =
     run_tag n rt c (add_library p (lib_tags, lib_filters))"

text \<open>
  The loop of \<open>parse\<close> runs from the node list and parser state on the left to those on
  the right, where it finds the queue empty: no round before has returned or raised.
\<close>

inductive exhausts ::
  "nat \<Rightarrow> runtime \<Rightarrow> string list \<Rightarrow> nodelist \<Rightarrow> parser \<Rightarrow> nodelist \<Rightarrow> parser \<Rightarrow> bool" where
  empty: "tokens p = [] \<Longrightarrow> exhausts (Suc n) rt parse_until nl p nl p"
| round: "tokens p = t # ts \<Longrightarrow>
          parse_token n rt parse_until nl t (p\<lparr>tokens := ts\<rparr>) = Some (Next nl', p') \<Longrightarrow>
          exhausts n rt parse_until nl' p' nl'' p'' \<Longrightarrow>
          exhausts (Suc n) rt parse_until nl p nl'' p''"

code_pred exhausts .

text \<open>
  A tag compiler for the examples: it parses up to one of its stop commands, takes the
  token that stopped the parse from the queue and returns a node; what the parse raises,
  it raises.
\<close>

definition example_block_tag :: "string list \<Rightarrow> string \<Rightarrow> Token \<Rightarrow> prog" where
  "example_block_tag stops r t =
     Parse stops (\<lambda>res.
       case res of
         Inl e \<Rightarrow> Raise e
       | Inr nl \<Rightarrow>
           NextToken (\<lambda>res'.
             case res' of
               Inl e \<Rightarrow> Raise e
             | Inr t' \<Rightarrow> Return (TagNode False r [nodes nl])))"

section \<open>context.py: Context objects\<close>

text \<open>
  The public attributes of the classes, as \<open>getattr(type(context), name)\<close> finds them: the
  methods, and the class attribute \<open>template = None\<close> of \<open>RenderContext\<close>.  A method is a
  function that cannot be called without arguments.
\<close>

definition class_method :: pyval where
  "class_method = PObj [] None (Some (Callee (Inl TypeError) (Some TypeError)))"

definition BaseContext_attrs :: "(string \<times> pyval) list" where
  "BaseContext_attrs =
     map (\<lambda>n. (n, class_method)) [''push'', ''pop'', ''set_upward'', ''get'', ''setdefault'', ''new'', ''flatten'']"

definition Context_attrs :: "(string \<times> pyval) list" where
  "Context_attrs = BaseContext_attrs @ map (\<lambda>n. (n, class_method)) [''bind_template'', ''update'']"

definition RenderContext_attrs :: "(string \<times> pyval) list" where
  "RenderContext_attrs = BaseContext_attrs @ [(''template'', PNone), (''push_state'', class_method)]"

text \<open>\<open>RenderContext()\<close> and \<open>Context.__init__(dict_, autoescape, use_l10n, use_tz)\<close>.\<close>

definition RenderContext_init :: pyval where
  "RenderContext_init = PContext True (reset_dicts None) RenderContext_attrs []"

definition Context_init :: "frame option \<Rightarrow> pyval \<Rightarrow> pyval \<Rightarrow> pyval \<Rightarrow> pyval" where
  "Context_init dict_arg autoescape use_l10n use_tz =
     PContext False (reset_dicts dict_arg) Context_attrs
       [(''autoescape'', autoescape), (''use_l10n'', use_l10n), (''use_tz'', use_tz),
        (''template_name'', PStr ''unknown''), (''render_context'', RenderContext_init),
        (''template'', PNone)]"

text \<open>
  Entering \<open>Context.bind_template(template)\<close>: the context inside the \<open>with\<close> block.  Of a
  template the engine reads \<open>template.engine.string_if_invalid\<close>; \<open>Template_with\<close> is a
  template whose engine has the given setting.
\<close>

definition bind_template :: "runtime \<Rightarrow> pyval \<Rightarrow> pyval \<Rightarrow> pyval result" where
  "bind_template rt context template =
     (case context of
        PContext rc dicts cattrs iattrs \<Rightarrow>
          (case py_getattr rt context ''template'' of
             Inl e \<Rightarrow> Inl e
           | Inr t \<Rightarrow>
               if t \<noteq> PNone then Inl (OtherError ''RuntimeError'' False)
               else Inr (PContext rc dicts cattrs (AList.update ''template'' template iattrs)))
      | _ \<Rightarrow> Inl AttributeError)"

definition Template_with :: "pyval \<Rightarrow> pyval" where
  "Template_with sii =
     PObj [(''engine'', Inr (PObj [(''string_if_invalid'', Inr sii)] None None))] None None"

definition bound_context :: "frame option \<Rightarrow> pyval \<Rightarrow> pyval" where
  \<comment> \<open>\<open>Context(dict_)\<close> bound to a template whose engine has this \<open>string_if_invalid\<close>\<close>
  "bound_context dict_arg sii =
     PContext False (reset_dicts dict_arg) Context_attrs
       [(''autoescape'', PBool True), (''use_l10n'', PNone), (''use_tz'', PNone),
        (''template_name'', PStr ''unknown''), (''render_context'', RenderContext_init),
        (''template'', Template_with sii)]"


section \<open>A runtime for the examples\<close>

text \<open>
  The examples below are evaluated in a runtime that answers what they ask and no more:
  no attribute of a built-in type is consulted; \<open>%\<close> knows the conversions \<open>%s\<close> and
  \<open>%%\<close>; \<open>str\<close> is given for None, booleans and integers, and any other value prints
  as \<open><object>\<close>; no translation is active and no datetime occurs; \<open>filter_re\<close> is
  given by its matches on the expressions used.
\<close>

fun percent_scan :: "string \<Rightarrow> string \<Rightarrow> bool \<Rightarrow> string result" where
  "percent_scan [] a used = (if used then Inr [] else Inl TypeError)"
| "percent_scan [c] a used =
     (if c = CHR ''%'' then Inl ValueError else map_sum id ((#) c) (percent_scan [] a used))"
| "percent_scan (c # d # s) a used =
     (if c \<noteq> CHR ''%'' then map_sum id ((#) c) (percent_scan (d # s) a used)
      else if d = CHR ''%'' then map_sum id ((#) CHR ''%'') (percent_scan s a used)
      else if d = CHR ''s'' then
        (if used then Inl TypeError else map_sum id ((@) a) (percent_scan s a True))
      else Inl ValueError)"

definition example_str :: "pyval \<Rightarrow> pyval result" where
  "example_str v =
     (case v of
        PNone \<Rightarrow> Inr (PStr ''None'')
      | PBool b \<Rightarrow> Inr (PStr (if b then ''True'' else ''False''))
      | PInt i \<Rightarrow> Inr (PStr (show_int i))
      | _ \<Rightarrow> Inr (PStr ''<object>''))"

definition example_matches :: "string \<Rightarrow> re_match list" where
  "example_matches s =
     (if s = ''x'' then
        [\<lparr>m_start = 0, m_end = 1, g_constant = None, g_var = Some ''x'', g_filter_name = None,
          g_constant_arg = None, g_var_arg = None\<rparr>]
      else if s = ''x|upper'' then
        [\<lparr>m_start = 0, m_end = 1, g_constant = None, g_var = Some ''x'', g_filter_name = None,
          g_constant_arg = None, g_var_arg = None\<rparr>,
         \<lparr>m_start = 1, m_end = 7, g_constant = None, g_var = None, g_filter_name = Some ''upper'',
          g_constant_arg = None, g_var_arg = None\<rparr>]
      else [])"

definition example_runtime :: runtime where
  "example_runtime =
     \<lparr>builtin_attrs = (\<lambda>v. []),
      percent_format = (\<lambda>fmt a. percent_scan fmt a False),
      to_str = example_str,
      float_nonzero = (\<lambda>s. list_ex (\<lambda>c. is_digit c \<and> c \<noteq> CHR ''0'') s),
      gettext_lazy = (\<lambda>mc v. v),
      localtime_of = (\<lambda>v use_tz. v),
      localize_of =
        (\<lambda>v use_l10n.
           case v of
             PBool b \<Rightarrow> PStr (if b then ''True'' else ''False'')
           | PInt i \<Rightarrow> PStr (show_int i)
           | _ \<Rightarrow> v),
      filter_re_finditer = example_matches\<rparr>"


text \<open>A filter for the examples: \<open>str.upper\<close> on the letters a to z.\<close>

definition upper_char :: "char \<Rightarrow> char" where
  "upper_char c =
     (case map_of (zip ''abcdefghijklmnopqrstuvwxyz'' ''ABCDEFGHIJKLMNOPQRSTUVWXYZ'') c of
        Some u \<Rightarrow> u
      | None \<Rightarrow> c)"

definition upper_filter :: filter_fn where
  "upper_filter =
     \<lparr>fn = (\<lambda>v args autoescape.
              case v of
                PStr s \<Rightarrow> Inr (PStr (map upper_char s))
              | PSafe s \<Rightarrow> Inr (PStr (map upper_char s))
              | _ \<Rightarrow> Inl AttributeError),
      expects_localtime = False, needs_autoescape = False, is_safe = False,
      n_args = 1, n_defaults = 0\<rparr>"




section \<open>Properties of the context stack\<close>

lemma pop_single: "pop [d] = (Inl ContextPopException, [d])"
  by (simp add: pop_def)

lemma pop_longer: "dicts \<noteq> [] \<Longrightarrow> pop (dicts @ [f]) = (Inr f, dicts)"
  by (simp add: pop_def)

lemma pop_cases:
  "(length dicts = 1 \<longrightarrow> pop dicts = (Inl ContextPopException, dicts)) \<and>
   (1 < length dicts \<longrightarrow> pop dicts = (Inr (last dicts), butlast dicts))"
proof (cases dicts rule: rev_cases)
  case Nil
  then show ?thesis by simp
next
  case (snoc ds f)
  then show ?thesis by (cases ds) (simp_all add: pop_def)
qed

lemma apply_ctx_op_bottom:
  assumes "dicts \<noteq> []"
  shows "apply_ctx_op op dicts \<noteq> [] \<and> hd (apply_ctx_op op dicts) = hd dicts"
proof (cases op)
  case (Push args kwargs)
  with assms show ?thesis
    by (auto simp: push_def ContextDict_init_def split: sum.splits)
next
  case Pop
  show ?thesis
  proof (cases dicts rule: rev_cases)
    case Nil
    with assms show ?thesis by simp
  next
    case (snoc ds f)
    with Pop show ?thesis by (cases ds) (simp_all add: pop_def)
  qed
qed

lemma run_ctx_ops_bottom:
  "dicts \<noteq> [] \<Longrightarrow> run_ctx_ops ops dicts \<noteq> [] \<and> hd (run_ctx_ops ops dicts) = hd dicts"
proof (induction ops arbitrary: dicts)
  case Nil
  then show ?case by (simp add: run_ctx_ops_def)
next
  case (Cons op ops)
  from apply_ctx_op_bottom [OF Cons.prems, of op]
  have a: "apply_ctx_op op dicts \<noteq> []" and b: "hd (apply_ctx_op op dicts) = hd dicts" by simp_all
  from Cons.IH [OF a] b show ?case by (simp add: run_ctx_ops_def)
qed

text \<open>
  Claim C5.  Whatever sequence of \<open>push\<close> and \<open>pop\<close> calls a context has gone through since
  its creation, the bottom frame of its stack is the builtins frame (True, False, None).
  \<open>pop\<close> on a stack that holds only that frame raises ContextPopException and leaves the
  stack as it was; \<open>pop\<close> on a larger stack returns the top frame and removes exactly it,
  the builtins frame staying at the bottom.
\<close>

theorem bottom_frame_is_permanent:
  fixes ops v
  defines "dicts \<equiv> run_ctx_ops ops (reset_dicts v)"
  shows "dicts \<noteq> [] \<and> hd dicts = builtins \<and>
         (length dicts = 1 \<longrightarrow> pop dicts = (Inl ContextPopException, dicts)) \<and>
         (1 < length dicts \<longrightarrow>
            pop dicts = (Inr (last dicts), butlast dicts) \<and> hd (butlast dicts) = builtins)"
proof -
  have r: "reset_dicts v \<noteq> []" "hd (reset_dicts v) = builtins"
    by (simp_all add: reset_dicts_def split: option.splits)
  have d: "dicts \<noteq> []" "hd dicts = builtins"
    using run_ctx_ops_bottom [OF r(1), of ops] r(2) by (simp_all add: dicts_def)
  have "1 < length dicts \<Longrightarrow> hd (butlast dicts) = builtins"
    using d by (cases dicts) (auto split: if_splits)
  with d pop_cases [of dicts] show ?thesis by blast
qed

theorem bottom_frame_is_permanent_witness:
  "run_ctx_ops [Pop, Push [Mapping [(KStr ''a'', PInt 1)]] [], Pop, Pop] (reset_dicts None) = [builtins] \<and>
   pop [builtins] = (Inl ContextPopException, [builtins]) \<and>
   run_ctx_ops [Push [Mapping [(KStr ''a'', PInt 1)]] []] (reset_dicts None) =
     [builtins, [(KStr ''a'', PInt 1)]] \<and>
   pop [builtins, [(KStr ''a'', PInt 1)]] = (Inr [(KStr ''a'', PInt 1)], [builtins])"
  using bottom_frame_is_permanent [of "[Pop, Push [Mapping [(KStr ''a'', PInt 1)]] [], Pop, Pop]" None]
        bottom_frame_is_permanent [of "[Push [Mapping [(KStr ''a'', PInt 1)]] []]" None]
  by (simp add: run_ctx_ops_def reset_dicts_def push_def ContextDict_init_def dict_update_def
        kw_frame_def pop_def)

text \<open>What \<open>push\<close> and the handle it returns do, by the number of frames collected.\<close>

lemma map_of_dict_update: "map_of (dict_update d other) = map_of d ++ map_of (rev other)"
  unfolding dict_update_def
proof (induction other arbitrary: d)
  case Nil
  show ?case by simp
next
  case (Cons x xs)
  obtain k v where x: "x = (k, v)" by (cases x)
  show ?case
    by (auto simp: x Cons.IH AList.update_conv' map_add_def fun_eq_iff split: option.splits)
qed

lemma push_one_mapping:
  assumes "''self'' \<notin> set (map fst kwargs)" and "''context'' \<notin> set (map fst kwargs)"
  shows "\<exists>f. push dicts [Mapping m] kwargs = Inr (dicts @ [f]) \<and>
           map_of f = map_of (rev m) ++ map_of (rev (kw_frame kwargs))"
  using assms by (simp add: push_def ContextDict_init_def map_of_dict_update)

lemma exit_pops_top: "dicts \<noteq> [] \<Longrightarrow> ContextDict_exit (dicts @ [f]) = (Inr (), dicts)"
  by (simp add: ContextDict_exit_def pop_def)

lemma push_many_raises:
  assumes "2 \<le> length (push_dicts args)"
  shows "push dicts args kwargs = Inl TypeError"
proof -
  from assms obtain d d' ds where "push_dicts args = d # d' # ds"
    by (cases "push_dicts args"; cases "tl (push_dicts args)") auto
  then show ?thesis by (simp add: push_def ContextDict_init_def)
qed

text \<open>
  Claim C8.  The claim asks that \<open>push(m1, ..., mk)\<close> make one new top frame that merges
  the mappings in order, for any number of them.  On two mappings the code raises
  TypeError: \<open>push\<close> collects both into \<open>dicts\<close> and passes them on as \<open>*dicts\<close>, and the
  constructor of \<open>dict\<close> under \<open>ContextDict\<close> takes one positional argument at most.  Here
  \<open>Context().push({'a': 1}, {'b': 2})\<close> is evaluated.
\<close>

theorem push_two_mappings_raises:
  "push (reset_dicts None) [Mapping [(KStr ''a'', PInt 1)], Mapping [(KStr ''b'', PInt 2)]] [] =
     Inl TypeError"
  by (simp add: push_def ContextDict_init_def)


section \<open>Properties of FilterExpression.__init__\<close>

lemma FilterExpression_init_token:
  "FilterExpression_init rt registered tok = Inr fe \<Longrightarrow> token fe = tok"
  by (auto simp: FilterExpression_init_def split: sum.splits prod.splits if_splits)

lemma Variable_init_x:
  "Variable_init ''x'' =
     Inr \<lparr>var = ''x'', literal = PNone, lookups = Some [''x''], translate = False,
          message_context = None\<rparr>"
  by (simp add: Variable_init_def float_syntax_def py_int_def number_strip_def is_number_space_def unsigned_def
       is_digit_def startswith_def endswith_def unescape_string_literal_def Let_def)

lemma init_x_upper:
  "FilterExpression_init example_runtime [(''upper'', upper_filter)] ''x|upper'' =
   Inr \<lparr>token = ''x|upper'',
        filters = [(upper_filter, [])],
        fvar = IsVariable \<lparr>var = ''x'', literal = PNone, lookups = Some [''x''],
                           translate = False, message_context = None\<rparr>\<rparr>"
  by (simp add: FilterExpression_init_def example_runtime_def example_matches_def first_match_def
       truthy_text_def Variable_init_x filter_match_def find_filter_def args_check_def
       upper_filter_def)

text \<open>
  Claim C9.  When a raw filter-expression string compiles (\<open>FilterExpression.__init__\<close>
  returns without raising, whatever the registered filters and the matches of the regular
  expression), the string form of the compiled expression is the raw text, character for
  character.
\<close>

theorem filter_expression_round_trip:
  "FilterExpression_init rt registered tok = Inr fe \<Longrightarrow> FilterExpression_str fe = tok"
  by (simp add: FilterExpression_str_def FilterExpression_init_token)

theorem filter_expression_round_trip_witness:
  "\<exists>fe. FilterExpression_init example_runtime [(''upper'', upper_filter)] ''x|upper'' = Inr fe \<and>
        FilterExpression_str fe = ''x|upper''"
  using filter_expression_round_trip [OF init_x_upper] init_x_upper by blast


section \<open>Properties of Parser.parse\<close>

lemma split_acc_spaces: "list_all is_space s \<Longrightarrow> split_acc [] s = []"
  by (induction s) simp_all

text \<open>
  Claim C10.  When the next token of the queue is a block token whose contents are empty
  or hold whitespace only, \<open>parse\<close> raises TemplateSyntaxError with the message "Empty
  block tag on line N", N the line of the token, and with the token attached.  The
  registered tags and the stop commands play no part: no tag is looked up.
\<close>

theorem empty_block_tag_fails:
  assumes "tokens p = t # ts" and "token_type t = BLOCK" and "\<forall>c\<in>set (contents t). is_space c"
  shows "parse (Suc n) rt parse_until nl p =
           Some (Inl (TemplateSyntaxError (''Empty block tag on line '' @ show_int (lineno t)), Some t),
                 p\<lparr>tokens := ts\<rparr>)"
proof -
  have "py_split (contents t) = []"
    using assms(3) by (simp add: py_split_def split_acc_spaces list_all_iff)
  with assms(1,2) show ?thesis by (simp add: error_msg_def)
qed

lemma create_token_empty_block:
  "create_token None ''{% %}'' None 3 True =
     (Some \<lparr>token_type = BLOCK, contents = [], position = None, lineno = 3\<rparr>, None)"
  by (simp add: create_token_def inner_text_def strip_def is_space_def startswith_def Let_def)

theorem empty_block_tag_fails_witness:
  "parse (Suc 0) example_runtime [''endif''] \<lparr>nodes = [], contains_nontext = False\<rparr>
     \<lparr>tokens = [\<lparr>token_type = BLOCK, contents = ''  '', position = None, lineno = 3\<rparr>],
      tags = [], pfilters = [], command_stack = []\<rparr> =
   Some (Inl (TemplateSyntaxError ''Empty block tag on line 3'',
              Some \<lparr>token_type = BLOCK, contents = ''  '', position = None, lineno = 3\<rparr>),
         \<lparr>tokens = [], tags = [], pfilters = [], command_stack = []\<rparr>) \<and>
   fst (create_token None ''{% %}'' None 3 True) =
     Some \<lparr>token_type = BLOCK, contents = [], position = None, lineno = 3\<rparr> \<and>
   parse (Suc 0) example_runtime [] \<lparr>nodes = [], contains_nontext = False\<rparr>
     \<lparr>tokens = [\<lparr>token_type = BLOCK, contents = [], position = None, lineno = 3\<rparr>],
      tags = [(''block'', example_block_tag [''endblock''] ''<BlockNode>'')], pfilters = [], command_stack = []\<rparr> =
   Some (Inl (TemplateSyntaxError ''Empty block tag on line 3'',
              Some \<lparr>token_type = BLOCK, contents = [], position = None, lineno = 3\<rparr>),
         \<lparr>tokens = [], tags = [(''block'', example_block_tag [''endblock''] ''<BlockNode>'')], pfilters = [], command_stack = []\<rparr>)"
proof -
  let ?nl = "\<lparr>nodes = [], contains_nontext = False\<rparr>"
  let ?t = "\<lparr>token_type = BLOCK, contents = ''  '', position = None, lineno = 3\<rparr>"
  let ?p = "\<lparr>tokens = [?t], tags = [], pfilters = [], command_stack = []\<rparr>"
  let ?t' = "\<lparr>token_type = BLOCK, contents = [], position = None, lineno = 3\<rparr>"
  let ?p' = "\<lparr>tokens = [?t'], tags = [(''block'', example_block_tag [''endblock''] ''<BlockNode>'')], pfilters = [], command_stack = []\<rparr>"
  have "parse (Suc 0) example_runtime [''endif''] ?nl ?p =
          Some (Inl (TemplateSyntaxError (''Empty block tag on line '' @ show_int (lineno ?t)), Some ?t),
                ?p\<lparr>tokens := []\<rparr>)"
    by (rule empty_block_tag_fails) (simp_all add: is_space_def)
  moreover have "parse (Suc 0) example_runtime [] ?nl ?p' =
          Some (Inl (TemplateSyntaxError (''Empty block tag on line '' @ show_int (lineno ?t')), Some ?t'),
                ?p'\<lparr>tokens := []\<rparr>)"
    by (rule empty_block_tag_fails) simp_all
  ultimately show ?thesis
    by (simp add: create_token_empty_block show_int_def show_nat.simps digit_char_def
          del: parse.simps)
qed

lemma exhausts_parse:
  "exhausts n rt parse_until nl p nl' p' \<Longrightarrow>
   tokens p' = [] \<and>
   parse n rt parse_until nl p =
     (if parse_until \<noteq> [] then
        (case unclosed_block_tag parse_until p' of (e, q) \<Rightarrow> Some (Inl e, q))
      else Some (Inr nl', p'))"
proof (induction rule: exhausts.induct)
  case (empty p n rt parse_until nl)
  then show ?case by simp
next
  case (round p t ts n rt parse_until nl nl' p' nl'' p'')
  then show ?case by (simp del: parse_token.simps)
qed

lemma unclosed_block_tag_top:
  "command_stack p = below @ [(command, t)] \<Longrightarrow>
   unclosed_block_tag parse_until p =
     (error_msg t
        (''Unclosed tag on line '' @ show_int (lineno t) @ '': '' @ quoted command @
         ''. Looking for one of: '' @ join '', '' parse_until @ ''.''),
      p\<lparr>command_stack := below\<rparr>)"
  by (simp add: unclosed_block_tag_def)

text \<open>
  Where the loop finds the queue empty with a block open, the error names the block pushed
  last and the line of its token, and takes the entry off the stack.
\<close>

lemma unclosed_tag_names_innermost_block:
  assumes "exhausts n rt parse_until nl p nl' p'"
    and "parse_until \<noteq> []"
    and "command_stack p' = below @ [(command, t)]"
  shows "parse n rt parse_until nl p =
           Some (Inl (TemplateSyntaxError
                        (''Unclosed tag on line '' @ show_int (lineno t) @ '': '' @ quoted command @
                         ''. Looking for one of: '' @ join '', '' parse_until @ ''.''),
                      Some t),
                 p'\<lparr>command_stack := below\<rparr>)"
  using exhausts_parse [OF assms(1)] assms(2) unclosed_block_tag_top [OF assms(3), of parse_until]
  by (simp add: error_msg_def)

lemma unclosed_block_example:
  "parse (Suc (Suc (Suc (Suc 0)))) example_runtime [] \<lparr>nodes = [], contains_nontext = False\<rparr>
     (Parser_init
        [\<lparr>token_type = BLOCK, contents = ''block x'', position = None, lineno = 1\<rparr>,
         \<lparr>token_type = TEXT, contents = ''hello'', position = None, lineno = 1\<rparr>]
        [([(''block'', example_block_tag [''endblock''] ''<BlockNode>'')], [])]) =
   Some (Inl (TemplateSyntaxError
                (''Unclosed tag on line 1: '' @ [CHR 0x27] @ ''block'' @ [CHR 0x27] @
                 ''. Looking for one of: endblock.''),
              Some \<lparr>token_type = BLOCK, contents = ''block x'', position = None, lineno = 1\<rparr>),
         \<lparr>tokens = [], tags = [(''block'', example_block_tag [''endblock''] ''<BlockNode>'')],
            pfilters = [], command_stack = []\<rparr>)"
proof -
  let ?b = "\<lparr>token_type = BLOCK, contents = ''block x'', position = None, lineno = 1\<rparr>"
  let ?txt = "\<lparr>token_type = TEXT, contents = ''hello'', position = None, lineno = 1\<rparr>"
  let ?stops = "[''endblock'']"
  let ?tags = "[(''block'', example_block_tag [''endblock''] ''<BlockNode>'')]"
  let ?nl = "\<lparr>nodes = [], contains_nontext = False\<rparr>"
  let ?nl' = "\<lparr>nodes = [(TextNode ''hello'', ?txt)], contains_nontext = False\<rparr>"
  let ?p = "\<lparr>tokens = [?txt], tags = ?tags, pfilters = [], command_stack = [(''block'', ?b)]\<rparr>"
  let ?q = "\<lparr>tokens = [], tags = ?tags, pfilters = [], command_stack = [(''block'', ?b)]\<rparr>"
  have "exhausts (Suc 0) example_runtime ?stops ?nl' ?q ?nl' ?q"
    by (rule exhausts.empty) simp
  moreover have "tokens ?p = ?txt # []" by simp
  moreover have "parse_token (Suc 0) example_runtime ?stops ?nl ?txt (?p\<lparr>tokens := []\<rparr>) =
                   Some (Next ?nl', ?q)"
    by (simp add: extend_nodelist_def)
  ultimately have ex: "exhausts (Suc (Suc 0)) example_runtime ?stops ?nl ?p ?nl' ?q"
    using exhausts.round [of ?p ?txt "[]" "Suc 0" example_runtime ?stops ?nl ?nl' ?q ?nl' ?q]
    by blast
  have inner: "parse (Suc (Suc 0)) example_runtime ?stops ?nl ?p =
      Some (Inl (TemplateSyntaxError
                   (''Unclosed tag on line '' @ show_int (lineno ?b) @ '': '' @ quoted ''block'' @
                    ''. Looking for one of: '' @ join '', '' ?stops @ ''.''),
                 Some ?b),
            ?q\<lparr>command_stack := []\<rparr>)"
    by (rule unclosed_tag_names_innermost_block [OF ex]) simp_all
  have split: "py_split ''block x'' = [''block'', ''x'']"
    by (simp add: py_split_def is_space_def)
  show ?thesis
    apply (subst parse.simps)
    apply (simp add: Parser_init_def add_library_def dict_update_def split
             example_block_tag_def
             inner error_exc_def quoted_def show_int_def show_nat.simps digit_char_def
           del: parse.simps)
    done
qed

text \<open>
  Claim C6.  The claim, like the docstring of \<open>parse\<close>, asks that every call with stop
  commands whose queue runs out raise the "unclosed tag" error.  With no block open, as in
  \<open>Parser([]).parse(['endif'])\<close>, the code reaches \<open>unclosed_block_tag\<close> to build that
  error, and its \<open>command_stack.pop()\<close> raises IndexError on the empty stack: no "unclosed
  tag" error is raised and no token is attached.  Here that call is evaluated.
\<close>

theorem unclosed_tag_on_empty_stack:
  "parse (Suc 0) example_runtime [''endif''] \<lparr>nodes = [], contains_nontext = False\<rparr>
     \<lparr>tokens = [], tags = [], pfilters = [], command_stack = []\<rparr> =
   Some (Inl (IndexError, None), \<lparr>tokens = [], tags = [], pfilters = [], command_stack = []\<rparr>)"
  by (simp add: unclosed_block_tag_def)


section \<open>Properties of render_value_in_context\<close>

lemma contains_iff: "contains sub s \<longleftrightarrow> (\<exists>pre post. s = pre @ sub @ post)"
proof (induction s)
  case Nil
  then show ?case by auto
next
  case (Cons c s)
  show ?case
  proof
    assume "contains sub (c # s)"
    then consider "take (length sub) (c # s) = sub" | "contains sub s" by auto
    then show "\<exists>pre post. c # s = pre @ sub @ post"
    proof cases
      case 1
      then have "c # s = [] @ sub @ drop (length sub) (c # s)"
        by (metis append_Nil append_take_drop_id)
      then show ?thesis by blast
    next
      case 2
      with Cons.IH obtain pre post where "s = pre @ sub @ post" by blast
      then have "c # s = (c # pre) @ sub @ post" by simp
      then show ?thesis by blast
    qed
  next
    assume "\<exists>pre post. c # s = pre @ sub @ post"
    then obtain pre post where eq: "c # s = pre @ sub @ post" by blast
    show "contains sub (c # s)"
    proof (cases pre)
      case Nil
      with eq have "take (length sub) (c # s) = sub" by simp
      then show ?thesis by simp
    next
      case (Cons a pre')
      with eq have "s = pre' @ sub @ post" by simp
      with Cons.IH have "contains sub s" by blast
      then show ?thesis by simp
    qed
  qed
qed

lemma escape_char_no_lt: "CHR ''<'' \<notin> set (escape_char c)"
  by (simp add: escape_char_def)

lemma escape_no_lt: "CHR ''<'' \<notin> set (escape s)"
  by (induction s) (simp_all add: escape_def escape_char_no_lt)

lemma escape_has_entity: "CHR ''<'' \<in> set s \<Longrightarrow> contains ''&lt;'' (escape s)"
proof -
  assume "CHR ''<'' \<in> set s"
  then obtain xs ys where "s = xs @ CHR ''<'' # ys" by (meson split_list)
  then have "escape s = escape xs @ ''&lt;'' @ escape ys"
    by (simp add: escape_def escape_char_def)
  then show ?thesis unfolding contains_iff by blast
qed

lemma localized_string:
  "localize rt (template_localtime rt (PStr s) use_tz) use_l10n = PStr s"
  "localize rt (template_localtime rt (PSafe s) use_tz) use_l10n = PSafe s"
  by (simp_all add: template_localtime_def localize_def)

lemma str_value_is_str: "str_value rt v = Inr r \<Longrightarrow> is_str r"
  by (auto simp: str_value_def split: if_splits sum.splits)

lemma str_value_of_str: "is_str v \<Longrightarrow> str_value rt v = Inr v"
  by (simp add: str_value_def)

lemma str_value_converts:
  "\<not> is_str v \<Longrightarrow> to_str rt v = Inr r \<Longrightarrow> is_str r \<Longrightarrow> str_value rt v = Inr r"
  by (simp add: str_value_def)

lemma conditional_escape_str:
  "conditional_escape rt (PStr s) = Inr (PSafe (escape s))"
  "conditional_escape rt (PSafe s) = Inr (PSafe s)"
  by (simp_all add: conditional_escape_def)

lemma conditional_escape_is_str:
  "is_str v \<Longrightarrow> conditional_escape rt v = Inr r \<Longrightarrow> is_str r"
  by (cases v) (auto simp: conditional_escape_def)

lemma render_value_unfold:
  assumes "py_getattr rt context ''use_tz'' = Inr use_tz"
    and "py_getattr rt context ''use_l10n'' = Inr use_l10n"
    and "py_getattr rt context ''autoescape'' = Inr autoescape"
  shows "render_value_in_context rt val context =
           (let v2 = localize rt (template_localtime rt val use_tz) use_l10n
            in if truthy rt autoescape then
                 (case (if \<not> is_str v2 then str_value rt v2 else Inr v2) of
                    Inl e \<Rightarrow> Inl e
                  | Inr v3 \<Rightarrow> conditional_escape rt v3)
               else str_value rt v2)"
  using assms by (simp add: render_value_in_context_def Let_def)

lemma render_value_is_str:
  assumes "py_getattr rt context ''use_tz'' = Inr use_tz"
    and "py_getattr rt context ''use_l10n'' = Inr use_l10n"
    and "py_getattr rt context ''autoescape'' = Inr autoescape"
    and "render_value_in_context rt val context = Inr out"
  shows "is_str out"
proof -
  let ?v2 = "localize rt (template_localtime rt val use_tz) use_l10n"
  note u = render_value_unfold [OF assms(1-3), of val]
  show ?thesis
  proof (cases "truthy rt autoescape")
    case False
    with u assms(4) have "str_value rt ?v2 = Inr out" by (simp add: Let_def)
    then show ?thesis by (rule str_value_is_str)
  next
    case True
    show ?thesis
    proof (cases "is_str ?v2")
      case True
      with \<open>truthy rt autoescape\<close> u assms(4) have "conditional_escape rt ?v2 = Inr out"
        by (simp add: Let_def)
      with True show ?thesis by (rule conditional_escape_is_str)
    next
      case False
      with \<open>truthy rt autoescape\<close> u assms(4)
      obtain v3 where "str_value rt ?v2 = Inr v3" and "conditional_escape rt v3 = Inr out"
        by (auto simp: Let_def split: sum.splits)
      then show ?thesis using str_value_is_str conditional_escape_is_str by blast
    qed
  qed
qed

text \<open>
  Claim C7.  In a context whose \<open>autoescape\<close> is true, \<open>render_value_in_context\<close> returns
  a value that carries the safe marking as it is, and returns an unmarked string with its
  HTML-special characters replaced by entities: where the string holds \<open><\<close>, the output
  holds \<open>&lt;\<close> and no \<open><\<close>; a value that is no string is converted by \<open>str\<close> first, and
  the unmarked text it gives is escaped the same way.  In a context whose \<open>autoescape\<close> is
  false a string comes out unchanged and a value that is no string comes out as the
  string that \<open>str\<close> makes of its localized form, unescaped.  In both cases what is
  returned is a string.
\<close>

theorem autoescape_rendering:
  assumes "py_getattr rt context ''use_tz'' = Inr use_tz"
    and "py_getattr rt context ''use_l10n'' = Inr use_l10n"
    and "py_getattr rt context ''autoescape'' = Inr autoescape"
  shows "(truthy rt autoescape \<longrightarrow>
            render_value_in_context rt (PSafe s) context = Inr (PSafe s) \<and>
            render_value_in_context rt (PStr s) context = Inr (PSafe (escape s)) \<and>
            (CHR ''<'' \<in> set s \<longrightarrow> contains ''&lt;'' (escape s) \<and> CHR ''<'' \<notin> set (escape s)) \<and>
            (\<not> is_str (localize rt (template_localtime rt val use_tz) use_l10n) \<and>
             to_str rt (localize rt (template_localtime rt val use_tz) use_l10n) = Inr (PStr t) \<longrightarrow>
               render_value_in_context rt val context = Inr (PSafe (escape t))) \<and>
            (\<not> is_str (localize rt (template_localtime rt val use_tz) use_l10n) \<and>
             to_str rt (localize rt (template_localtime rt val use_tz) use_l10n) = Inr (PSafe t) \<longrightarrow>
               render_value_in_context rt val context = Inr (PSafe t))) \<and>
         (\<not> truthy rt autoescape \<longrightarrow>
            render_value_in_context rt val context =
              str_value rt (localize rt (template_localtime rt val use_tz) use_l10n) \<and>
            render_value_in_context rt (PSafe s) context = Inr (PSafe s) \<and>
            render_value_in_context rt (PStr s) context = Inr (PStr s) \<and>
            (\<not> is_str (localize rt (template_localtime rt val use_tz) use_l10n) \<and>
             to_str rt (localize rt (template_localtime rt val use_tz) use_l10n) = Inr r \<and> is_str r \<longrightarrow>
               render_value_in_context rt val context = Inr r)) \<and>
         (render_value_in_context rt val context = Inr out \<longrightarrow> is_str out)"
proof -
  let ?v2 = "localize rt (template_localtime rt val use_tz) use_l10n"
  note u = render_value_unfold [OF assms]
  have on: "truthy rt autoescape \<Longrightarrow>
              render_value_in_context rt (PSafe s) context = Inr (PSafe s) \<and>
              render_value_in_context rt (PStr s) context = Inr (PSafe (escape s))"
    by (simp add: u localized_string conditional_escape_str Let_def)
  have on_conv: "truthy rt autoescape \<Longrightarrow> \<not> is_str ?v2 \<Longrightarrow> to_str rt ?v2 = Inr (PStr t) \<Longrightarrow>
              render_value_in_context rt val context = Inr (PSafe (escape t))"
    by (simp add: u str_value_converts conditional_escape_str Let_def)
  have on_safe: "truthy rt autoescape \<Longrightarrow> \<not> is_str ?v2 \<Longrightarrow> to_str rt ?v2 = Inr (PSafe t) \<Longrightarrow>
              render_value_in_context rt val context = Inr (PSafe t)"
    by (simp add: u str_value_converts conditional_escape_str Let_def)
  have off: "\<not> truthy rt autoescape \<Longrightarrow>
              render_value_in_context rt val context = str_value rt ?v2 \<and>
              render_value_in_context rt (PSafe s) context = Inr (PSafe s) \<and>
              render_value_in_context rt (PStr s) context = Inr (PStr s)"
    by (simp add: u localized_string str_value_of_str Let_def)
  have off_conv: "\<not> truthy rt autoescape \<Longrightarrow> \<not> is_str ?v2 \<Longrightarrow> to_str rt ?v2 = Inr r \<Longrightarrow>
              is_str r \<Longrightarrow> render_value_in_context rt val context = Inr r"
    by (simp add: u str_value_converts Let_def)
  have out: "render_value_in_context rt val context = Inr out \<Longrightarrow> is_str out"
    by (rule render_value_is_str [OF assms])
  from on on_conv on_safe off off_conv out escape_has_entity [of s] escape_no_lt [of s]
  show ?thesis by blast
qed

theorem autoescape_rendering_witness:
  "render_value_in_context example_runtime (PStr ''a<b'') (Context_init None (PBool True) PNone PNone) =
     Inr (PSafe ''a&lt;b'') \<and>
   render_value_in_context example_runtime (PSafe ''a<b'') (Context_init None (PBool True) PNone PNone) =
     Inr (PSafe ''a<b'') \<and>
   render_value_in_context example_runtime (PList []) (Context_init None (PBool True) PNone PNone) =
     Inr (PSafe ''&lt;object&gt;'') \<and>
   render_value_in_context example_runtime (PStr ''a<b'') (Context_init None (PBool False) PNone PNone) =
     Inr (PStr ''a<b'') \<and>
   render_value_in_context example_runtime PNone (Context_init None (PBool False) PNone PNone) =
     Inr (PStr ''None'') \<and>
   render_value_in_context example_runtime (PList []) (Context_init None (PBool False) PNone PNone) =
     Inr (PStr ''<object>'')"
proof -
  let ?on = "Context_init None (PBool True) PNone PNone"
  let ?off = "Context_init None (PBool False) PNone PNone"
  have on: "py_getattr example_runtime ?on ''use_tz'' = Inr PNone"
    "py_getattr example_runtime ?on ''use_l10n'' = Inr PNone"
    "py_getattr example_runtime ?on ''autoescape'' = Inr (PBool True)"
    by (simp_all add: Context_init_def)
  have off: "py_getattr example_runtime ?off ''use_tz'' = Inr PNone"
    "py_getattr example_runtime ?off ''use_l10n'' = Inr PNone"
    "py_getattr example_runtime ?off ''autoescape'' = Inr (PBool False)"
    by (simp_all add: Context_init_def)
  have loc: "localize example_runtime (template_localtime example_runtime (PList []) PNone) PNone = PList []"
    "localize example_runtime (template_localtime example_runtime PNone PNone) PNone = PNone"
    by (simp_all add: localize_def template_localtime_def example_runtime_def)
  have str: "to_str example_runtime (PList []) = Inr (PStr ''<object>'')"
    "to_str example_runtime PNone = Inr (PStr ''None'')"
    by (simp_all add: example_runtime_def example_str_def)
  have esc: "escape ''a<b'' = ''a&lt;b''" "escape ''<object>'' = ''&lt;object&gt;''"
    by (simp_all add: escape_def escape_char_def)
  have basic: "truthy example_runtime (PBool True)" "\<not> truthy example_runtime (PBool False)"
    "\<not> is_str (PList [])" "\<not> is_str PNone" "is_str (PStr ''<object>'')" "is_str (PStr ''None'')"
    by simp_all
  note A = autoescape_rendering [OF on, of "''a<b''" "PList []" "''<object>''", unfolded loc str esc]
  note B = autoescape_rendering [OF off, of "''a<b''" "PList []" _ "PStr ''<object>''",
             unfolded loc str]
  note C = autoescape_rendering [OF off, of _ PNone _ "PStr ''None''", unfolded loc str]
  have 1: "render_value_in_context example_runtime (PStr ''a<b'') ?on = Inr (PSafe ''a&lt;b'')"
    using A basic by blast
  have 2: "render_value_in_context example_runtime (PSafe ''a<b'') ?on = Inr (PSafe ''a<b'')"
    using A basic by blast
  have 3: "render_value_in_context example_runtime (PList []) ?on = Inr (PSafe ''&lt;object&gt;'')"
    using A basic by blast
  have 4: "render_value_in_context example_runtime (PStr ''a<b'') ?off = Inr (PStr ''a<b'')"
    using B basic by blast
  have 6: "render_value_in_context example_runtime (PList []) ?off = Inr (PStr ''<object>'')"
    using B basic by blast
  have 5: "render_value_in_context example_runtime PNone ?off = Inr (PStr ''None'')"
    using C basic by blast
  from 1 2 3 4 5 6 show ?thesis by simp
qed


section \<open>Properties of Variable.resolve\<close>

lemma walk_step:
  "lookup_bit rt current b = Inr v \<Longrightarrow>
   walk_lookups rt context current (b # bits) =
     (case call_if_callable rt context v of
        Inl e \<Rightarrow> Inl e
      | Inr v' \<Rightarrow> walk_lookups rt context v' bits)"
  by simp

text \<open>
  The branch \<open>if callable(current)\<close>, case by case.  A value flagged
  \<open>do_not_call_in_templates\<close> stays in the walk uncalled; otherwise a value flagged
  \<open>alters_data\<close> is replaced by \<open>string_if_invalid\<close>, whatever a call of it would do;
  otherwise the value is called without arguments.  When the call raises TypeError,
  \<open>getcallargs\<close> decides: its TypeError puts \<open>string_if_invalid\<close> in the value's place,
  any other exception it raises leaves the walk.
\<close>

lemma callable_segment_policy:
  assumes "lookup_bit rt current b = Inr f"
    and "callable f = Some c"
  shows "(flag rt f ''do_not_call_in_templates'' = Inr True \<longrightarrow>
            walk_lookups rt context current (b # bits) = walk_lookups rt context f bits) \<and>
         (flag rt f ''do_not_call_in_templates'' = Inr False \<and> flag rt f ''alters_data'' = Inr True \<and>
          string_if_invalid rt context = Inr fallback \<longrightarrow>
            walk_lookups rt context current (b # bits) = walk_lookups rt context fallback bits) \<and>
         (flag rt f ''do_not_call_in_templates'' = Inr False \<and> flag rt f ''alters_data'' = Inr False \<and>
          call0 c = Inr v \<longrightarrow>
            walk_lookups rt context current (b # bits) = walk_lookups rt context v bits) \<and>
         (flag rt f ''do_not_call_in_templates'' = Inr False \<and> flag rt f ''alters_data'' = Inr False \<and>
          call0 c = Inl TypeError \<and> getcallargs c = Some TypeError \<and>
          string_if_invalid rt context = Inr fallback \<longrightarrow>
            walk_lookups rt context current (b # bits) = walk_lookups rt context fallback bits) \<and>
         (flag rt f ''do_not_call_in_templates'' = Inr False \<and> flag rt f ''alters_data'' = Inr False \<and>
          call0 c = Inl TypeError \<and> getcallargs c = Some e \<and> e \<noteq> TypeError \<longrightarrow>
            walk_lookups rt context current (b # bits) = Inl e)"
  using assms by (simp add: call_if_callable_def)

lemma sii_bound: "string_if_invalid rt (bound_context d sii) = Inr sii"
  by (simp add: string_if_invalid_def bound_context_def Template_with_def attr_of_def)

lemma lookup_bound:
  "lookup_bit rt (bound_context (Some [(KStr ''f'', v)]) sii) ''f'' = Inr v"
  by (simp add: lookup_bit_def dictionary_lookup_def bound_context_def reset_dicts_def
        context_getitem_def builtins_def)

lemma callable_segment_examples:
  "resolve_lookup example_runtime [''f'']
     (bound_context (Some [(KStr ''f'',
        PObj [(''do_not_call_in_templates'', Inr (PBool True))] None (Some (Callee (Inr (PInt 1)) None)))])
        (PStr ''INVALID'')) =
     Inr (PObj [(''do_not_call_in_templates'', Inr (PBool True))] None (Some (Callee (Inr (PInt 1)) None))) \<and>
   resolve_lookup example_runtime [''f'']
     (bound_context (Some [(KStr ''f'',
        PObj [(''alters_data'', Inr (PBool True))] None (Some (Callee (Inr (PInt 1)) None)))])
        (PStr ''INVALID'')) = Inr (PStr ''INVALID'') \<and>
   resolve_lookup example_runtime [''f'']
     (bound_context (Some [(KStr ''f'', PObj [] None (Some (Callee (Inr (PInt 1)) None)))])
        (PStr ''INVALID'')) = Inr (PInt 1) \<and>
   resolve_lookup example_runtime [''f'']
     (bound_context (Some [(KStr ''f'', PObj [] None (Some (Callee (Inl TypeError) (Some TypeError))))])
        (PStr ''INVALID'')) = Inr (PStr ''INVALID'')"
proof -
  let ?rt = example_runtime
  let ?sii = "PStr ''INVALID''"
  let ?f1 = "PObj [(''do_not_call_in_templates'', Inr (PBool True))] None (Some (Callee (Inr (PInt 1)) None))"
  let ?f2 = "PObj [(''alters_data'', Inr (PBool True))] None (Some (Callee (Inr (PInt 1)) None))"
  let ?f3 = "PObj [] None (Some (Callee (Inr (PInt 1)) None))"
  let ?f4 = "PObj [] None (Some (Callee (Inl TypeError) (Some TypeError)))"
  let ?c = "\<lambda>f. bound_context (Some [(KStr ''f'', f)]) ?sii"
  have 1: "walk_lookups ?rt (?c ?f1) (?c ?f1) [''f''] = Inr ?f1"
    using callable_segment_policy [of "?rt" "?c ?f1" "''f''" "?f1" "Callee (Inr (PInt 1)) None"
            "?c ?f1" "[]"]
    by (simp add: lookup_bound flag_def attr_of_def del: walk_lookups.simps(2))
  have 2: "walk_lookups ?rt (?c ?f2) (?c ?f2) [''f''] = Inr ?sii"
    using callable_segment_policy [of "?rt" "?c ?f2" "''f''" "?f2" "Callee (Inr (PInt 1)) None"
            "?c ?f2" "[]" "?sii"]
    by (simp add: lookup_bound flag_def attr_of_def sii_bound del: walk_lookups.simps(2))
  have 3: "walk_lookups ?rt (?c ?f3) (?c ?f3) [''f''] = Inr (PInt 1)"
    using callable_segment_policy [of "?rt" "?c ?f3" "''f''" "?f3" "Callee (Inr (PInt 1)) None"
            "?c ?f3" "[]" _ "PInt 1"]
    by (simp add: lookup_bound flag_def attr_of_def del: walk_lookups.simps(2))
  have 4: "walk_lookups ?rt (?c ?f4) (?c ?f4) [''f''] = Inr ?sii"
    using callable_segment_policy [of "?rt" "?c ?f4" "''f''" "?f4"
            "Callee (Inl TypeError) (Some TypeError)" "?c ?f4" "[]" "?sii"]
    by (simp add: lookup_bound flag_def attr_of_def sii_bound del: walk_lookups.simps(2))
  from 1 2 3 4 show ?thesis by (simp add: resolve_lookup_def del: walk_lookups.simps)
qed

text \<open>
  Claim C2.  The claim asks that a callable which cannot be called without arguments be
  replaced by the fallback string; the comment "arguments *were* required" in the code
  says the same.  For an instance of a class whose \<open>__call__\<close> takes an argument (or a
  \<open>functools.partial\<close> that still needs one), \<open>current()\<close> raises TypeError and
  \<open>getcallargs(current)\<close> raises AttributeError, the object having no \<open>__name__\<close>; the
  handler catches TypeError only, so the AttributeError leaves \<open>_resolve_lookup\<close> and no
  fallback is substituted.  Here \<open>Variable("f").resolve(context)\<close> is evaluated for such
  an \<open>f\<close>, in a context whose \<open>string_if_invalid\<close> is \<open>INVALID\<close>.
\<close>

theorem callable_instance_needing_arguments_raises:
  "resolve_lookup example_runtime [''f'']
     (bound_context
        (Some [(KStr ''f'', PObj [] None (Some (Callee (Inl TypeError) (Some AttributeError))))])
        (PStr ''INVALID'')) = Inl AttributeError"
  by (simp add: resolve_lookup_def lookup_bound call_if_callable_def flag_def attr_of_def)

lemma walk_lookups_append:
  "walk_lookups rt context current (bits @ [b]) =
     (case walk_lookups rt context current bits of
        Inl e \<Rightarrow> Inl e
      | Inr v \<Rightarrow>
          (case lookup_bit rt v b of
             Inl e \<Rightarrow> Inl e
           | Inr x \<Rightarrow> call_if_callable rt context x))"
  by (induction bits arbitrary: current) (simp_all split: sum.splits)

lemma Variable_init_abc:
  "Variable_init ''a.b.0'' =
     Inr \<lparr>var = ''a.b.0'', literal = PNone, lookups = Some [''a'', ''b'', ''0''], translate = False,
          message_context = None\<rparr>"
  by (simp add: Variable_init_def float_syntax_def py_float_ok_def is_number_def is_digitpart_def
        is_e_def number_strip_def is_number_space_def unsigned_def is_digit_def startswith_def endswith_def
        unescape_string_literal_def Let_def)

lemma Variable_init_op:
  "Variable_init ''o.p'' =
     Inr \<lparr>var = ''o.p'', literal = PNone, lookups = Some [''o'', ''p''], translate = False,
          message_context = None\<rparr>"
  by (simp add: Variable_init_def float_syntax_def py_float_ok_def is_number_def is_digitpart_def
        is_e_def number_strip_def is_number_space_def unsigned_def is_digit_def startswith_def endswith_def
        unescape_string_literal_def Let_def)

lemma py_int_0: "py_int ''0'' = Some 0"
  by (simp add: py_int_def number_strip_def is_number_space_def unsigned_def is_digit_def digit_val_def negative_def)

lemma py_int_p: "py_int ''p'' = None"
  by (simp add: py_int_def number_strip_def is_number_space_def unsigned_def is_digit_def)


lemma lookup_bit_dictionary:
  "dictionary_lookup current b = Inr x \<Longrightarrow> lookup_bit rt current b = Inr x"
  by (simp add: lookup_bit_def)

lemma lookup_bit_attribute:
  "dictionary_lookup current b = Inl e \<Longrightarrow>
   e \<in> set [TypeError, AttributeError, KeyError, ValueError, IndexError] \<Longrightarrow>
   attribute_lookup rt current b = Inr x \<Longrightarrow> lookup_bit rt current b = Inr x"
  by (simp add: lookup_bit_def)

lemma lookup_bit_reraise:
  "dictionary_lookup current b = Inl e \<Longrightarrow>
   e \<in> set [TypeError, AttributeError, KeyError, ValueError, IndexError] \<Longrightarrow>
   attribute_lookup rt current b = Inl e' \<Longrightarrow> e' \<in> set [TypeError, AttributeError] \<Longrightarrow>
   \<not> is_context current \<Longrightarrow> b \<in> set (py_dir rt current) \<Longrightarrow>
   lookup_bit rt current b = Inl e'"
  by (simp add: lookup_bit_def)

lemma lookup_bit_index:
  "dictionary_lookup current b = Inl e \<Longrightarrow>
   e \<in> set [TypeError, AttributeError, KeyError, ValueError, IndexError] \<Longrightarrow>
   attribute_lookup rt current b = Inl e' \<Longrightarrow> e' \<in> set [TypeError, AttributeError] \<Longrightarrow>
   is_context current \<or> b \<notin> set (py_dir rt current) \<Longrightarrow>
   list_index_lookup current b = Inr x \<Longrightarrow>
   lookup_bit rt current b = Inr x"
  by (auto simp: lookup_bit_def)

lemma lookup_bit_fails:
  "dictionary_lookup current b = Inl e \<Longrightarrow>
   e \<in> set [TypeError, AttributeError, KeyError, ValueError, IndexError] \<Longrightarrow>
   attribute_lookup rt current b = Inl e' \<Longrightarrow> e' \<in> set [TypeError, AttributeError] \<Longrightarrow>
   is_context current \<or> b \<notin> set (py_dir rt current) \<Longrightarrow>
   list_index_lookup current b = Inl e'' \<Longrightarrow>
   e'' \<in> set [IndexError, ValueError, KeyError, TypeError] \<Longrightarrow>
   lookup_bit rt current b = Inl (VariableDoesNotExist b current)"
  by (auto simp: lookup_bit_def)

lemma resolve_lookup_missing:
  "walk_lookups rt context context bits = Inl (VariableDoesNotExist b c) \<Longrightarrow>
   resolve_lookup rt bits context = Inl (VariableDoesNotExist b c)"
  by (simp add: resolve_lookup_def)

lemma Variable_resolve_lookups:
  "lookups v = Some bits \<Longrightarrow> \<not> translate v \<Longrightarrow>
   Variable_resolve rt v context = resolve_lookup rt bits context"
  by (simp add: Variable_resolve_def split: sum.splits)

lemma resolve_abc:
  assumes "''0'' \<notin> set (map fst (builtin_attrs rt (PList [PInt 10, PInt 20])))"
  shows "resolve_lookup rt [''a'', ''b'', ''0'']
           (PDict [(KStr ''a'', PDict [(KStr ''b'', PList [PInt 10, PInt 20])])]) = Inr (PInt 10)"
proof -
  let ?l = "PList [PInt 10, PInt 20]"
  let ?b = "PDict [(KStr ''b'', ?l)]"
  let ?a = "PDict [(KStr ''a'', ?b)]"
  have a: "lookup_bit rt ?a ''a'' = Inr ?b"
    by (rule lookup_bit_dictionary) (simp add: dictionary_lookup_def)
  have b: "lookup_bit rt ?b ''b'' = Inr ?l"
    by (rule lookup_bit_dictionary) (simp add: dictionary_lookup_def)
  have no: "map_of (builtin_attrs rt ?l) ''0'' = None"
    using assms by (simp add: map_of_eq_None_iff)
  have l: "lookup_bit rt ?l ''0'' = Inr (PInt 10)"
    by (rule lookup_bit_index [where e = TypeError and e' = AttributeError])
       (use assms no in \<open>simp_all add: dictionary_lookup_def attribute_lookup_def attr_of_def
          list_index_lookup_def py_int_0 seq_getitem_def\<close>)
  show ?thesis
    by (simp add: resolve_lookup_def a b l call_if_callable_def)
qed


text \<open>
  Claim C1, as the code has it.  The claim asks for VariableDoesNotExist whenever the three
  lookups fail for a segment.  For an object whose property \<open>p\<close> raises AttributeError,
  the key access, the attribute access and the index access all fail on \<open>p\<close>, and
  \<open>Variable("o.p").resolve({'o': obj})\<close> raises that AttributeError: the guard
  \<open>bit in dir(current)\<close> re-raises the error of a listed attribute and the index access is
  not tried.
\<close>

theorem property_error_counterexample:
  "dictionary_lookup (PObj [(''p'', Inl AttributeError)] None None) ''p'' = Inl TypeError \<and>
   attribute_lookup example_runtime (PObj [(''p'', Inl AttributeError)] None None) ''p'' =
     Inl AttributeError \<and>
   list_index_lookup (PObj [(''p'', Inl AttributeError)] None None) ''p'' = Inl ValueError \<and>
   Variable_init ''o.p'' =
     Inr \<lparr>var = ''o.p'', literal = PNone, lookups = Some [''o'', ''p''], translate = False,
          message_context = None\<rparr> \<and>
   Variable_resolve example_runtime
     \<lparr>var = ''o.p'', literal = PNone, lookups = Some [''o'', ''p''], translate = False,
      message_context = None\<rparr>
     (PDict [(KStr ''o'', PObj [(''p'', Inl AttributeError)] None None)]) = Inl AttributeError"
  by (simp add: Variable_init_op dictionary_lookup_def attribute_lookup_def attr_of_def
        list_index_lookup_def py_int_p Variable_resolve_def resolve_lookup_def lookup_bit_def
        call_if_callable_def)

text \<open>
  Claim C1, amended.  \<open>resolve\<close> walks the segments of a lookup path from left to right:
  the walk over \<open>bits @ [b]\<close> is the walk over \<open>bits\<close> followed by the lookup of \<open>b\<close> in
  its result (and the call policy for a callable result).  A segment is looked up by key
  first; when that raises TypeError, AttributeError, KeyError, ValueError or IndexError,
  as an attribute; when that raises TypeError or AttributeError and the current value is a
  context or does not list the segment in its \<open>dir()\<close>, by the segment parsed as an
  integer index; when that raises IndexError, ValueError, KeyError or TypeError, the lookup
  fails with VariableDoesNotExist carrying the segment and the current value, and
  \<open>resolve\<close> raises it.  When the failed attribute is listed in the \<open>dir()\<close> of a value
  that is no context, its TypeError or AttributeError is raised again as it is.  In
  particular \<open>Variable("a.b.0").resolve({'a': {'b': [10, 20]}})\<close> returns 10 (in any
  runtime where a list has no attribute named \<open>0\<close>).
\<close>

theorem staged_lookup:
  "walk_lookups rt context current (bits @ [b]) =
     (case walk_lookups rt context current bits of
        Inl e \<Rightarrow> Inl e
      | Inr v \<Rightarrow>
          (case lookup_bit rt v b of
             Inl e \<Rightarrow> Inl e
           | Inr x \<Rightarrow> call_if_callable rt context x)) \<and>
   (dictionary_lookup current b = Inr x \<longrightarrow> lookup_bit rt current b = Inr x) \<and>
   (dictionary_lookup current b = Inl e \<and>
    e \<in> set [TypeError, AttributeError, KeyError, ValueError, IndexError] \<longrightarrow>
      (attribute_lookup rt current b = Inr x \<longrightarrow> lookup_bit rt current b = Inr x) \<and>
      (attribute_lookup rt current b = Inl e' \<and> e' \<in> set [TypeError, AttributeError] \<longrightarrow>
         (\<not> is_context current \<and> b \<in> set (py_dir rt current) \<longrightarrow>
            lookup_bit rt current b = Inl e') \<and>
         (is_context current \<or> b \<notin> set (py_dir rt current) \<longrightarrow>
            (list_index_lookup current b = Inr x \<longrightarrow> lookup_bit rt current b = Inr x) \<and>
            (list_index_lookup current b = Inl e'' \<and>
             e'' \<in> set [IndexError, ValueError, KeyError, TypeError] \<longrightarrow>
               lookup_bit rt current b = Inl (VariableDoesNotExist b current))))) \<and>
   (walk_lookups rt context context bits = Inl (VariableDoesNotExist k c) \<longrightarrow>
      resolve_lookup rt bits context = Inl (VariableDoesNotExist k c)) \<and>
   (lookups self = Some bits \<and> \<not> translate self \<longrightarrow>
      Variable_resolve rt self context = resolve_lookup rt bits context) \<and>
   (''0'' \<notin> set (map fst (builtin_attrs rt (PList [PInt 10, PInt 20]))) \<longrightarrow>
      (\<exists>v. Variable_init ''a.b.0'' = Inr v \<and>
           Variable_resolve rt v (PDict [(KStr ''a'', PDict [(KStr ''b'', PList [PInt 10, PInt 20])])]) =
             Inr (PInt 10)))"
proof -
  have ex: "''0'' \<notin> set (map fst (builtin_attrs rt (PList [PInt 10, PInt 20]))) \<Longrightarrow>
      (\<exists>v. Variable_init ''a.b.0'' = Inr v \<and>
           Variable_resolve rt v (PDict [(KStr ''a'', PDict [(KStr ''b'', PList [PInt 10, PInt 20])])]) =
             Inr (PInt 10))"
    using resolve_abc [of rt] by (simp add: Variable_init_abc Variable_resolve_lookups)
  show ?thesis
    using walk_lookups_append [of rt "context" current bits b]
      lookup_bit_dictionary [of current b x rt]
      lookup_bit_attribute [of current b e rt x]
      lookup_bit_reraise [of current b e rt e']
      lookup_bit_index [of current b e rt e' x]
      lookup_bit_fails [of current b e rt e' e'']
      resolve_lookup_missing [of rt "context" bits k c]
      Variable_resolve_lookups [of self bits rt "context"]
      ex
    by blast
qed

theorem staged_lookup_witness:
  "Variable_resolve example_runtime
     \<lparr>var = ''a.b.0'', literal = PNone, lookups = Some [''a'', ''b'', ''0''], translate = False,
      message_context = None\<rparr>
     (PDict [(KStr ''a'', PDict [(KStr ''b'', PList [PInt 10, PInt 20])])]) = Inr (PInt 10) \<and>
   lookup_bit example_runtime (PDict [(KStr ''b'', PList [PInt 10, PInt 20])]) ''x'' =
     Inl (VariableDoesNotExist ''x'' (PDict [(KStr ''b'', PList [PInt 10, PInt 20])]))"
proof -
  let ?d = "PDict [(KStr ''b'', PList [PInt 10, PInt 20])]"
  note t = staged_lookup [where rt = example_runtime]
  have "\<exists>v. Variable_init ''a.b.0'' = Inr v \<and>
          Variable_resolve example_runtime v (PDict [(KStr ''a'', ?d)]) = Inr (PInt 10)"
    using t by (simp add: example_runtime_def)
  then have 1: "Variable_resolve example_runtime
     \<lparr>var = ''a.b.0'', literal = PNone, lookups = Some [''a'', ''b'', ''0''], translate = False,
      message_context = None\<rparr> (PDict [(KStr ''a'', ?d)]) = Inr (PInt 10)"
    by (simp add: Variable_init_abc)
  have "dictionary_lookup ?d ''x'' = Inl KeyError"
    and "attribute_lookup example_runtime ?d ''x'' = Inl AttributeError"
    and "''x'' \<notin> set (py_dir example_runtime ?d)"
    and "list_index_lookup ?d ''x'' = Inl ValueError"
    by (simp_all add: dictionary_lookup_def attribute_lookup_def attr_of_def example_runtime_def
          list_index_lookup_def py_int_def number_strip_def is_number_space_def unsigned_def is_digit_def)
  then have 2: "lookup_bit example_runtime ?d ''x'' = Inl (VariableDoesNotExist ''x'' ?d)"
    using t [where current = "?d" and b = "''x''" and e = KeyError and e' = AttributeError
               and e'' = ValueError]
    by simp
  from 1 2 show ?thesis by simp
qed



section \<open>Properties of FilterExpression.resolve\<close>

lemma missing_in_bound_context:
  "Variable_resolve example_runtime
     \<lparr>var = ''x'', literal = PNone, lookups = Some [''x''], translate = False, message_context = None\<rparr>
     (bound_context None sii) = Inl (VariableDoesNotExist ''x'' (bound_context None sii))"
proof -
  let ?c = "bound_context None sii"
  have c: "?c = PContext False [builtins] Context_attrs
       [(''autoescape'', PBool True), (''use_l10n'', PNone), (''use_tz'', PNone),
        (''template_name'', PStr ''unknown''), (''render_context'', RenderContext_init),
        (''template'', Template_with sii)]"
    by (simp add: bound_context_def reset_dicts_def)
  have "dictionary_lookup ?c ''x'' = Inl KeyError"
    by (simp add: c dictionary_lookup_def context_getitem_def builtins_def)
  moreover have "attribute_lookup example_runtime ?c ''x'' = Inl AttributeError"
    by (simp add: c attribute_lookup_def class_attr_def Context_attrs_def BaseContext_attrs_def)
  moreover have "list_index_lookup ?c ''x'' = Inl ValueError"
    by (simp add: list_index_lookup_def py_int_def number_strip_def is_number_space_def unsigned_def is_digit_def)
  moreover have "is_context ?c" by (simp add: c)
  ultimately have "lookup_bit example_runtime ?c ''x'' = Inl (VariableDoesNotExist ''x'' ?c)"
    by (simp add: lookup_bit_def)
  then show ?thesis
    by (simp add: Variable_resolve_def resolve_lookup_def)
qed

text \<open>
  Claim C3, amended.  When the base variable of a FilterExpression fails with
  VariableDoesNotExist, \<open>ignore_failures\<close> is false and \<open>string_if_invalid\<close> is a non-empty
  string, \<open>resolve\<close> returns that string, formatted with the variable by \<open>%\<close> when it
  contains \<open>%s\<close>; the result does not depend on the filters of the chain, none is
  applied.
\<close>

theorem fallback_is_returned_unfiltered:
  assumes "fvar self = IsVariable v"
    and "Variable_resolve rt v context = Inl (VariableDoesNotExist b c)"
    and "string_if_invalid rt context = Inr (PStr s)"
    and "s \<noteq> []"
  shows "FilterExpression_resolve rt self context False =
           (if contains ''%s'' s then map_sum id PStr (percent_format rt s (var v))
            else Inr (PStr s))"
  using assms by (simp add: FilterExpression_resolve_def invalid_result_def)

text \<open>
  Claim C3, as the code has it.  The claim lets the filters run on the substituted
  fallback.  With the fallback \<open>n/a\<close> and the chain \<open>x|upper\<close> on a context without
  \<open>x\<close>, the chain applied to the fallback would give \<open>N/A\<close>; \<open>resolve\<close> returns \<open>n/a\<close>,
  by the \<open>return\<close> inside the handler.
\<close>

theorem fallback_filters_counterexample:
  "Variable_resolve example_runtime
     \<lparr>var = ''x'', literal = PNone, lookups = Some [''x''], translate = False, message_context = None\<rparr>
     (bound_context None (PStr ''n/a'')) =
     Inl (VariableDoesNotExist ''x'' (bound_context None (PStr ''n/a''))) \<and>
   FilterExpression_resolve example_runtime
     \<lparr>token = ''x|upper'', filters = [(upper_filter, [])],
      fvar = IsVariable \<lparr>var = ''x'', literal = PNone, lookups = Some [''x''], translate = False,
                         message_context = None\<rparr>\<rparr>
     (bound_context None (PStr ''n/a'')) False = Inr (PStr ''n/a'') \<and>
   apply_filters example_runtime (bound_context None (PStr ''n/a'')) [(upper_filter, [])] (PStr ''n/a'') =
     Inr (PStr ''N/A'')"
  by (simp add: missing_in_bound_context FilterExpression_resolve_def sii_bound invalid_result_def
        apply_filter_def upper_filter_def upper_char_def)

theorem fallback_is_returned_unfiltered_witness:
  "FilterExpression_resolve example_runtime
     \<lparr>token = ''x|upper'', filters = [(upper_filter, [])],
      fvar = IsVariable \<lparr>var = ''x'', literal = PNone, lookups = Some [''x''], translate = False,
                         message_context = None\<rparr>\<rparr>
     (bound_context None (PStr ''no %s here'')) False = Inr (PStr ''no x here'') \<and>
   FilterExpression_resolve example_runtime
     \<lparr>token = ''x|upper'', filters = [(upper_filter, [])],
      fvar = IsVariable \<lparr>var = ''x'', literal = PNone, lookups = Some [''x''], translate = False,
                         message_context = None\<rparr>\<rparr>
     (bound_context None (PStr ''N/A'')) False = Inr (PStr ''N/A'')"
  using fallback_is_returned_unfiltered [OF _ missing_in_bound_context sii_bound,
          where s = "''no %s here''" and
            self = "\<lparr>token = ''x|upper'', filters = [(upper_filter, [])],
      fvar = IsVariable \<lparr>var = ''x'', literal = PNone, lookups = Some [''x''], translate = False,
                         message_context = None\<rparr>\<rparr>"]
        fallback_is_returned_unfiltered [OF _ missing_in_bound_context sii_bound,
          where s = "''N/A''" and
            self = "\<lparr>token = ''x|upper'', filters = [(upper_filter, [])],
      fvar = IsVariable \<lparr>var = ''x'', literal = PNone, lookups = Some [''x''], translate = False,
                         message_context = None\<rparr>\<rparr>"]
  by (simp add: example_runtime_def del: contains.simps)
     (simp add: example_runtime_def)






end
